theory Spec2Isabelle
  imports Complex_Main
begin

section \<open>Go library functions used by the forecast service\<close>

text \<open>
  The forecast service (\<^verbatim>\<open>services/sales_forecast.go\<close>) works on period labels, which
  are Go strings (byte sequences, here \<^typ>\<open>string\<close>), and on \<^verbatim>\<open>time.Time\<close> values
  obtained from \<^verbatim>\<open>time.Parse\<close> with the layouts \<^verbatim>\<open>"2006-01-02"\<close> and
  \<^verbatim>\<open>"2006-01"\<close>. Every such value is a UTC midnight, so a \<^verbatim>\<open>time.Time\<close> is modelled
  by its day number (days since 1970-01-01 in the proleptic Gregorian calendar).
  A total is a \<^verbatim>\<open>float64\<close>, modelled with its infinities and NaN in the section on that type.
\<close>

type_synonym go_time = int

definition isLeap :: "int \<Rightarrow> bool" where
  "isLeap y = (y mod 4 = 0 \<and> (y mod 100 \<noteq> 0 \<or> y mod 400 = 0))"

definition daysBefore :: "int \<Rightarrow> int" where
  "daysBefore m = [0, 31, 59, 90, 120, 151, 181, 212, 243, 273, 304, 334] ! nat (m - 1)"

definition daysIn :: "int \<Rightarrow> int \<Rightarrow> int" where
  "daysIn m y =
     (if m = 2 \<and> isLeap y then 29
      else [31, 28, 31, 30, 31, 30, 31, 31, 30, 31, 30, 31] ! nat (m - 1))"

definition daysBeforeYear :: "int \<Rightarrow> int" where
  "daysBeforeYear y =
     365 * (y - 1970) + (y - 1) div 4 - (y - 1) div 100 + (y - 1) div 400 - 477"

text \<open>
  \<^verbatim>\<open>time.Date(year, month, day, 0, 0, 0, 0, time.UTC)\<close>: the month is normalised into
  1..12 with the overflow carried into the year; the day is added linearly, so a day
  outside the month rolls over into the neighbouring months.
\<close>

definition Date :: "int \<Rightarrow> int \<Rightarrow> int \<Rightarrow> go_time" where
  "Date y m d =
     (let m0 = m - 1;
          y' = y + m0 div 12;
          m' = m0 mod 12 + 1
      in daysBeforeYear y' + daysBefore m'
           + (if isLeap y' \<and> 3 \<le> m' then 1 else 0) + (d - 1))"

text \<open>
  The calendar date (year, month, day) of a day number, as \<^verbatim>\<open>t.Date()\<close> reads it:
  the 400-year era and the day of the era, the year of the era, the day of the year
  counted from March 1, and the month. Each step is a function of its own so that the
  intermediate values are computed once.
\<close>

definition civil_ymd :: "int \<Rightarrow> int \<Rightarrow> int \<Rightarrow> int \<times> int \<times> int" where
  "civil_ymd y0 doy mp =
     (if mp < 10 then (y0, mp + 3, doy - (153 * mp + 2) div 5 + 1)
      else (y0 + 1, mp - 9, doy - (153 * mp + 2) div 5 + 1))"

definition civil_doy :: "int \<Rightarrow> int \<Rightarrow> int \<times> int \<times> int" where
  "civil_doy y0 doy = civil_ymd y0 doy ((5 * doy + 2) div 153)"

definition civil_yoe :: "int \<Rightarrow> int \<Rightarrow> int \<Rightarrow> int \<times> int \<times> int" where
  "civil_yoe era doe yoe =
     civil_doy (yoe + era * 400) (doe - (365 * yoe + yoe div 4 - yoe div 100))"

definition civil_doe :: "int \<Rightarrow> int \<Rightarrow> int \<times> int \<times> int" where
  "civil_doe era doe =
     civil_yoe era doe ((doe - doe div 1460 + doe div 36524 - doe div 146096) div 365)"

definition civil :: "go_time \<Rightarrow> int \<times> int \<times> int" where
  "civil t = civil_doe ((t + 719468) div 146097) ((t + 719468) mod 146097)"

text \<open>\<^verbatim>\<open>t.AddDate(years, months, days)\<close> is \<^verbatim>\<open>Date(year+years, month+months, day+days)\<close>.\<close>

fun addToCivil :: "int \<times> int \<times> int \<Rightarrow> int \<Rightarrow> int \<Rightarrow> int \<Rightarrow> go_time" where
  "addToCivil (y, m, d) years months days = Date (y + years) (m + months) (d + days)"

definition AddDate :: "go_time \<Rightarrow> int \<Rightarrow> int \<Rightarrow> int \<Rightarrow> go_time" where
  "AddDate t years months days = addToCivil (civil t) years months days"

text \<open>The zero value of \<^verbatim>\<open>time.Time\<close> is January 1 of year 1.\<close>

definition zeroTime :: go_time where
  "zeroTime = Date 1 1 1"

definition After :: "go_time \<Rightarrow> go_time \<Rightarrow> bool" where
  "After t u = (u < t)"

definition Equal :: "go_time \<Rightarrow> go_time \<Rightarrow> bool" where
  "Equal t u = (t = u)"

subsection \<open>Decimal digits\<close>

text \<open>
  \<^verbatim>\<open>isDigit\<close> of package time tests \<^verbatim>\<open>'0' <= c && c <= '9'\<close> on the byte, and the
  digit's value is \<^verbatim>\<open>int(c - '0')\<close>; the byte \<^verbatim>\<open>'0'\<close> is 48.
\<close>

definition isDigit :: "char \<Rightarrow> bool" where
  "isDigit c = (48 \<le> (of_char c :: nat) \<and> (of_char c :: nat) \<le> 57)"

definition digit_of :: "char \<Rightarrow> int option" where
  "digit_of c = (if isDigit c then Some (int (of_char c) - 48) else None)"

definition digit_char :: "nat \<Rightarrow> char" where
  "digit_char n = ''0123456789'' ! (n mod 10)"

fun digits :: "nat \<Rightarrow> string" where
  "digits n = (if n < 10 then [digit_char n] else digits (n div 10) @ [digit_char n])"

declare digits.simps [simp del]

text \<open>\<^verbatim>\<open>%d\<close> of \<^verbatim>\<open>fmt.Sprintf\<close> on an \<^verbatim>\<open>int\<close>.\<close>

definition fmt_d :: "int \<Rightarrow> string" where
  "fmt_d x = (if x < 0 then CHR ''-'' # digits (nat (- x)) else digits (nat x))"

text \<open>
  \<^verbatim>\<open>appendInt(b, x, width)\<close> of package time: a sign for a negative value, then the
  decimal digits padded with zeros to the width.
\<close>

definition appendInt :: "int \<Rightarrow> nat \<Rightarrow> string" where
  "appendInt x width =
     (let ds = digits (nat \<bar>x\<bar>)
      in (if x < 0 then ''-'' else '''') @ replicate (width - length ds) CHR ''0'' @ ds)"

subsection \<open>Formatting and parsing with the two layouts\<close>

fun formatYearMonthDay :: "int \<times> int \<times> int \<Rightarrow> string" where
  "formatYearMonthDay (y, m, d) =
     appendInt y 4 @ ''-'' @ appendInt m 2 @ ''-'' @ appendInt d 2"

fun formatYearMonth :: "int \<times> int \<times> int \<Rightarrow> string" where
  "formatYearMonth (y, m, d) = appendInt y 4 @ ''-'' @ appendInt m 2"

text \<open>\<^verbatim>\<open>t.Format("2006-01-02")\<close> and \<^verbatim>\<open>t.Format("2006-01")\<close>.\<close>

definition Format_2006_01_02 :: "go_time \<Rightarrow> string" where
  "Format_2006_01_02 t = formatYearMonthDay (civil t)"

definition Format_2006_01 :: "go_time \<Rightarrow> string" where
  "Format_2006_01 t = formatYearMonth (civil t)"

text \<open>\<^verbatim>\<open>getnum(s, true)\<close>: exactly two digits.\<close>

fun getnum_fixed :: "string \<Rightarrow> (int \<times> string) option" where
  "getnum_fixed (a # b # rest) =
     (case (digit_of a, digit_of b) of
        (Some x, Some y) \<Rightarrow> Some (x * 10 + y, rest)
      | _ \<Rightarrow> None)"
| "getnum_fixed _ = None"

text \<open>The chunk \<^verbatim>\<open>2006\<close>: exactly four digits.\<close>

fun getLongYear :: "string \<Rightarrow> (int \<times> string) option" where
  "getLongYear (a # b # c # d # rest) =
     (case (digit_of a, digit_of b, digit_of c, digit_of d) of
        (Some w, Some x, Some y, Some z) \<Rightarrow> Some (w * 1000 + x * 100 + y * 10 + z, rest)
      | _ \<Rightarrow> None)"
| "getLongYear _ = None"

text \<open>A literal \<^verbatim>\<open>-\<close> of the layout must be the next byte of the value.\<close>

fun skipDash :: "string \<Rightarrow> string option" where
  "skipDash (c # rest) = (if c = CHR ''-'' then Some rest else None)"
| "skipDash [] = None"

text \<open>
  \<^verbatim>\<open>time.Parse("2006-01-02", value)\<close>: \<open>None\<close> is the error return. The month must be
  in 1..12, the day in 1..daysIn, and no text may follow.
\<close>

definition Parse_2006_01_02 :: "string \<Rightarrow> go_time option" where
  "Parse_2006_01_02 v =
     (case getLongYear v of None \<Rightarrow> None | Some (y, v1) \<Rightarrow>
      case skipDash v1 of None \<Rightarrow> None | Some v2 \<Rightarrow>
      case getnum_fixed v2 of None \<Rightarrow> None | Some (m, v3) \<Rightarrow>
      if m \<le> 0 \<or> 12 < m then None else
      case skipDash v3 of None \<Rightarrow> None | Some v4 \<Rightarrow>
      case getnum_fixed v4 of None \<Rightarrow> None | Some (d, v5) \<Rightarrow>
      if v5 \<noteq> [] then None
      else if d < 1 \<or> daysIn m y < d then None
      else Some (Date y m d))"

text \<open>\<^verbatim>\<open>time.Parse("2006-01", value)\<close>: the day defaults to 1.\<close>

definition Parse_2006_01 :: "string \<Rightarrow> go_time option" where
  "Parse_2006_01 v =
     (case getLongYear v of None \<Rightarrow> None | Some (y, v1) \<Rightarrow>
      case skipDash v1 of None \<Rightarrow> None | Some v2 \<Rightarrow>
      case getnum_fixed v2 of None \<Rightarrow> None | Some (m, v3) \<Rightarrow>
      if m \<le> 0 \<or> 12 < m then None
      else if v3 \<noteq> [] then None
      else Some (Date y m 1))"

section \<open>Period label advancement\<close>

text \<open>
  \<^verbatim>\<open>generateNextPeriod(lastPeriod, timePeriod, offset)\<close>. The current time, which the
  source reads with \<^verbatim>\<open>time.Now()\<close> when parsing fails, is the parameter \<open>now\<close> (the day
  number of the current local date). The function has no error return.
\<close>

definition generateNextPeriod :: "go_time \<Rightarrow> string \<Rightarrow> string \<Rightarrow> int \<Rightarrow> string" where
  "generateNextPeriod now lastPeriod timePeriod offset =
     (if timePeriod = ''day'' then
        (let baseDate = (case Parse_2006_01_02 lastPeriod of Some t \<Rightarrow> t | None \<Rightarrow> now)
         in Format_2006_01_02 (AddDate baseDate 0 0 offset))
      else if timePeriod = ''week'' then
        (let baseDate = (case Parse_2006_01_02 lastPeriod of Some t \<Rightarrow> t | None \<Rightarrow> now)
         in Format_2006_01_02 (AddDate baseDate 0 0 (offset * 7)))
      else if timePeriod = ''month'' then
        (let baseDate =
           (case Parse_2006_01 lastPeriod of Some t \<Rightarrow> t
            | None \<Rightarrow> (case Parse_2006_01_02 lastPeriod of Some t \<Rightarrow> t | None \<Rightarrow> now))
         in Format_2006_01 (AddDate baseDate 0 offset 0))
      else ''forecast-'' @ fmt_d offset)"

section \<open>The type float64\<close>

text \<open>
  A \<^verbatim>\<open>float64\<close> is a finite number, an infinity or NaN. An operation on finite operands
  gives the exact real result when its magnitude is at most \<^verbatim>\<open>math.MaxFloat64\<close>, and the
  infinity of its sign otherwise. An operation with NaN gives NaN, and every comparison
  with NaN is false. The rounding of a finite result to the nearest representable number
  and the sign of a zero are not modelled.
\<close>

datatype float64 = Finite real | PosInf | NegInf | NaN

definition maxFloat64 :: real where
  "maxFloat64 = (2 - 1 / 2 ^ 52) * 2 ^ 1023"

definition fromReal :: "real \<Rightarrow> float64" where
  "fromReal r =
     (if maxFloat64 < r then PosInf else if r < - maxFloat64 then NegInf else Finite r)"

fun isFinite :: "float64 \<Rightarrow> bool" where
  "isFinite (Finite r) = True"
| "isFinite x = False"

fun fneg :: "float64 \<Rightarrow> float64" where
  "fneg (Finite a) = Finite (- a)"
| "fneg PosInf = NegInf"
| "fneg NegInf = PosInf"
| "fneg NaN = NaN"

fun fadd :: "float64 \<Rightarrow> float64 \<Rightarrow> float64" where
  "fadd NaN y = NaN"
| "fadd x NaN = NaN"
| "fadd (Finite a) (Finite b) = fromReal (a + b)"
| "fadd PosInf NegInf = NaN"
| "fadd NegInf PosInf = NaN"
| "fadd PosInf y = PosInf"
| "fadd x PosInf = PosInf"
| "fadd NegInf y = NegInf"
| "fadd x NegInf = NegInf"

text \<open>The sign of an infinite product or quotient: positive when the signs agree.\<close>

definition signedInf :: "bool \<Rightarrow> float64" where
  "signedInf positive = (if positive then PosInf else NegInf)"

fun fmul :: "float64 \<Rightarrow> float64 \<Rightarrow> float64" where
  "fmul NaN y = NaN"
| "fmul x NaN = NaN"
| "fmul (Finite a) (Finite b) = fromReal (a * b)"
| "fmul (Finite a) y = (if a = 0 then NaN else signedInf ((0 < a) = (y = PosInf)))"
| "fmul x (Finite b) = (if b = 0 then NaN else signedInf ((0 < b) = (x = PosInf)))"
| "fmul x y = signedInf (x = y)"

fun fdiv :: "float64 \<Rightarrow> float64 \<Rightarrow> float64" where
  "fdiv NaN y = NaN"
| "fdiv x NaN = NaN"
| "fdiv (Finite a) (Finite b) =
     (if b = 0 then (if a = 0 then NaN else signedInf (0 < a)) else fromReal (a / b))"
| "fdiv (Finite a) y = Finite 0"
| "fdiv x (Finite b) = signedInf ((0 \<le> b) = (x = PosInf))"
| "fdiv x y = NaN"

fun flt :: "float64 \<Rightarrow> float64 \<Rightarrow> bool" where
  "flt NaN y = False"
| "flt x NaN = False"
| "flt (Finite a) (Finite b) = (a < b)"
| "flt x NegInf = False"
| "flt PosInf y = False"
| "flt NegInf y = True"
| "flt x PosInf = True"

text \<open>
  The operators \<^verbatim>\<open>+\<close>, \<^verbatim>\<open>-\<close>, \<^verbatim>\<open>*\<close>, \<^verbatim>\<open>/\<close>, \<^verbatim>\<open><\<close> and the constants 0 and 1 of Go on
  \<^verbatim>\<open>float64\<close>.
\<close>

instantiation float64 :: "{zero, one, plus, uminus, minus, times, inverse, ord}"
begin

definition zero_float64_def: "0 = Finite 0"

definition one_float64_def: "1 = Finite 1"

definition plus_float64_def: "x + y = fadd x y"

definition uminus_float64_def: "- x = fneg x"

definition minus_float64_def: "x - y = fadd x (fneg y)"

definition times_float64_def: "x * y = fmul x y"

definition divide_float64_def: "x div y = fdiv x y"

definition inverse_float64_def: "inverse x = fdiv (Finite 1) x"

definition less_float64_def: "x < y = flt x y"

definition less_eq_float64_def: "x \<le> y = (flt x y \<or> (x = y \<and> x \<noteq> NaN))"

instance ..

end

text \<open>\<^verbatim>\<open>float64(n)\<close> of an \<^verbatim>\<open>int\<close>, \<^verbatim>\<open>math.Sin\<close> and \<^verbatim>\<open>math.Pi\<close>.\<close>

definition float64OfInt :: "int \<Rightarrow> float64" where
  "float64OfInt n = fromReal (real_of_int n)"

fun math_Sin :: "float64 \<Rightarrow> float64" where
  "math_Sin (Finite x) = Finite (sin x)"
| "math_Sin x = NaN"

definition math_Pi :: float64 where
  "math_Pi = Finite pi"

section \<open>Data model of the forecast service\<close>

record TimeSeriesPoint =
  Period :: string
  Total :: float64

record ForecastRequest =
  TimeSeriesData :: "TimeSeriesPoint list"
  TimePeriod :: string
  PeriodsToForecast :: int

text \<open>
  \<^verbatim>\<open>ForecastResponse\<close>; its field \<^verbatim>\<open>TimePeriod\<close> is named \<open>ResponseTimePeriod\<close> here, its
  field \<^verbatim>\<open>Message\<close> is \<open>StatusMessage\<close>.
\<close>

record ForecastResponse =
  Forecast :: "TimeSeriesPoint list"
  ResponseTimePeriod :: string
  StatusMessage :: string
  RawResponse :: string

record Message =
  Role :: string
  Content :: string

record ChatGPTRequest =
  Model :: string
  Messages :: "Message list"

text \<open>A \<^verbatim>\<open>ChatGPTResponse\<close> is its list of choices, a \<^verbatim>\<open>Choice\<close> is its message.\<close>

record ChatGPTResponse =
  Choices :: "Message list"

text \<open>
  A Go \<^verbatim>\<open>error\<close> value carries its text; a run-time panic is kept apart from it.
  Functions that can fail return \<open>failure + 'a\<close>.
\<close>

datatype failure = Error string | Panic string

text \<open>
  What one invocation of the handler reads from outside the program: the environment
  variable \<^verbatim>\<open>OPENAI_API_KEY\<close>, the clock, the successive results of
  \<^verbatim>\<open>rand.Float64()\<close> (each in the half-open interval from 0 to 1), the outcome of the two
  HTTP exchanges with the provider (\<^verbatim>\<open>testOpenAIAPI\<close>, \<^verbatim>\<open>sendChatGPTRequest\<close>), and
  the library functions \<^verbatim>\<open>json.Unmarshal\<close> into \<^verbatim>\<open>[]TimeSeriesPoint\<close> and
  \<^verbatim>\<open>%.2f\<close> formatting.
\<close>

record env =
  apiKeyEnv :: string
  timeNow :: go_time
  randFloat64 :: "nat \<Rightarrow> float64"
  testOpenAIAPI :: "string \<Rightarrow> string option"
  sendChatGPTRequest :: "string \<Rightarrow> ChatGPTRequest \<Rightarrow> string + ChatGPTResponse"
  jsonUnmarshal :: "string \<Rightarrow> string + TimeSeriesPoint list"
  fmt_2f :: "float64 \<Rightarrow> string"

section \<open>Trend estimator\<close>

definition getForecastPeriods :: "string \<Rightarrow> int" where
  "getForecastPeriods timePeriod =
     (if timePeriod = ''day'' then 14
      else if timePeriod = ''week'' then 4
      else if timePeriod = ''month'' then 6
      else 12)"

definition createRequestForPeriod :: "ForecastRequest \<Rightarrow> string \<Rightarrow> ForecastRequest" where
  "createRequestForPeriod request timePeriod =
     request\<lparr>TimePeriod := timePeriod, PeriodsToForecast := getForecastPeriods timePeriod\<rparr>"

text \<open>
  \<^verbatim>\<open>filterToLast12Months\<close>. The first loop finds the latest date among the points whose
  period parses (as \<^verbatim>\<open>2006-01-02\<close>, else as \<^verbatim>\<open>2006-01\<close>), starting from the zero time;
  the second loop keeps the points that parse and are not before the cutoff.
\<close>

fun findLatestDate :: "go_time \<Rightarrow> TimeSeriesPoint list \<Rightarrow> go_time" where
  "findLatestDate latestDate [] = latestDate"
| "findLatestDate latestDate (point # rest) =
     (case Parse_2006_01_02 (Period point) of
        Some date \<Rightarrow> findLatestDate (if After date latestDate then date else latestDate) rest
      | None \<Rightarrow>
          (case Parse_2006_01 (Period point) of
             Some date \<Rightarrow>
               findLatestDate (if After date latestDate then date else latestDate) rest
           | None \<Rightarrow> findLatestDate latestDate rest))"

fun keepFromCutoff :: "go_time \<Rightarrow> TimeSeriesPoint list \<Rightarrow> TimeSeriesPoint list" where
  "keepFromCutoff cutoffDate [] = []"
| "keepFromCutoff cutoffDate (point # rest) =
     (case Parse_2006_01_02 (Period point) of
        Some date \<Rightarrow>
          (if After date cutoffDate \<or> Equal date cutoffDate
           then point # keepFromCutoff cutoffDate rest
           else keepFromCutoff cutoffDate rest)
      | None \<Rightarrow>
          (case Parse_2006_01 (Period point) of
             Some date \<Rightarrow>
               (if After date cutoffDate \<or> Equal date cutoffDate
                then point # keepFromCutoff cutoffDate rest
                else keepFromCutoff cutoffDate rest)
           | None \<Rightarrow> keepFromCutoff cutoffDate rest))"

definition filterToLast12Months :: "TimeSeriesPoint list \<Rightarrow> TimeSeriesPoint list" where
  "filterToLast12Months data =
     (if length data = 0 then data
      else keepFromCutoff (AddDate (findLatestDate zeroTime data) 0 (- 12) 0) data)"

text \<open>The accumulation loops \<^verbatim>\<open>for _, v := range vs { avg += v }\<close> from 0.\<close>

definition sumValues :: "float64 list \<Rightarrow> float64" where
  "sumValues vs = foldl (\<lambda>acc v. acc + v) 0 vs"

text \<open>
  The body of the forecast loop in the branch with a non-empty older head (trend,
  seasonality and random variation); \<open>i\<close> is the loop index and the \<open>i\<close>-th iteration
  makes the \<open>i\<close>-th call of \<^verbatim>\<open>rand.Float64()\<close>. The comparison \<^verbatim>\<open>forecastValue < 0\<close> is
  false for NaN.
\<close>

definition seasonalPoint ::
  "env \<Rightarrow> string \<Rightarrow> string \<Rightarrow> float64 \<Rightarrow> float64 \<Rightarrow> nat \<Rightarrow> TimeSeriesPoint" where
  "seasonalPoint e lastPeriod timePeriod avgRecent trend i =
     (let seasonality = Finite 0.1;
          volatility = Finite 0.05;
          nextPeriod = generateNextPeriod (timeNow e) lastPeriod timePeriod (int i + 1);
          baseValue = avgRecent + trend * float64OfInt (int i + 1);
          seasonalFactor =
            1 + seasonality * math_Sin (float64OfInt (int i) * math_Pi / Finite 6);
          randomFactor = 1 + (randFloat64 e i - Finite 0.5) * volatility * Finite 2;
          forecastValue = baseValue * seasonalFactor * randomFactor
      in \<lparr>Period = nextPeriod, Total = (if forecastValue < 0 then 0 else forecastValue)\<rparr>)"

text \<open>The body of the forecast loop in the simple linear branch.\<close>

definition linearPoint ::
  "env \<Rightarrow> string \<Rightarrow> string \<Rightarrow> float64 \<Rightarrow> float64 \<Rightarrow> nat \<Rightarrow> TimeSeriesPoint" where
  "linearPoint e lastPeriod timePeriod avgRecent trend i =
     (let nextPeriod = generateNextPeriod (timeNow e) lastPeriod timePeriod (int i + 1);
          forecastValue = avgRecent + trend * float64OfInt (int i + 1)
      in \<lparr>Period = nextPeriod, Total = (if forecastValue < 0 then 0 else forecastValue)\<rparr>)"

text \<open>
  \<^verbatim>\<open>forecast := make([]TimeSeriesPoint, n)\<close> followed by the loop that fills
  \<^verbatim>\<open>forecast[i]\<close> for \<^verbatim>\<open>i\<close> from 0 to \<^verbatim>\<open>n-1\<close>; \<^verbatim>\<open>make\<close> panics on a negative length.
\<close>

definition fillForecast ::
  "int \<Rightarrow> (nat \<Rightarrow> TimeSeriesPoint) \<Rightarrow> failure + TimeSeriesPoint list" where
  "fillForecast n body =
     (if n < 0 then Inl (Panic ''makeslice: len out of range'')
      else Inr (map body [0 ..< nat n]))"

text \<open>The branch of \<^verbatim>\<open>generateSimpleForecast\<close> taken when \<^verbatim>\<open>len(olderValues) > 0\<close>.\<close>

definition trendSeasonalForecast ::
  "env \<Rightarrow> ForecastRequest \<Rightarrow> TimeSeriesPoint list \<Rightarrow> float64 \<Rightarrow> float64 list \<Rightarrow> nat
     \<Rightarrow> failure + TimeSeriesPoint list" where
  "trendSeasonalForecast e request filteredData avgRecent olderValues windowSize =
     (let avgOlder = sumValues olderValues / float64OfInt (int (length olderValues));
          trend = (avgRecent - avgOlder) / float64OfInt (int windowSize);
          lastPeriod = Period (filteredData ! (length filteredData - 1))
      in fillForecast (PeriodsToForecast request)
           (seasonalPoint e lastPeriod (TimePeriod request) avgRecent trend))"

text \<open>The final part of \<^verbatim>\<open>generateSimpleForecast\<close>: the simple linear trend.\<close>

definition linearForecast ::
  "env \<Rightarrow> ForecastRequest \<Rightarrow> TimeSeriesPoint list \<Rightarrow> float64 \<Rightarrow> float64 list
     \<Rightarrow> failure + TimeSeriesPoint list" where
  "linearForecast e request filteredData avgRecent vals =
     (let trend = (avgRecent - vals ! 0) / float64OfInt (int (length vals) - 1);
          lastPeriod = Period (filteredData ! (length filteredData - 1))
      in fillForecast (PeriodsToForecast request)
           (linearPoint e lastPeriod (TimePeriod request) avgRecent trend))"

text \<open>
  \<^verbatim>\<open>generateSimpleForecast\<close>. All indexing is within bounds: the filtered series has
  at least two points where it is indexed.
\<close>

definition generateSimpleForecast ::
  "env \<Rightarrow> ForecastRequest \<Rightarrow> failure + TimeSeriesPoint list" where
  "generateSimpleForecast e request =
     (let filteredData = filterToLast12Months (TimeSeriesData request)
      in if length filteredData < 2 then Inr []
         else
           (let vals = map Total filteredData;
                windowSize = (if length vals < 3 then length vals else 3);
                recentValues = drop (length vals - windowSize) vals;
                avgRecent = sumValues recentValues / float64OfInt (int (length recentValues));
                olderValues = take (length vals - windowSize) vals
            in if length olderValues > 0
               then trendSeasonalForecast e request filteredData avgRecent olderValues windowSize
               else linearForecast e request filteredData avgRecent vals))"

section \<open>Prompt construction\<close>

definition filterToDailyData :: "TimeSeriesPoint list \<Rightarrow> TimeSeriesPoint list" where
  "filterToDailyData data = data"

definition filterToWeeklyData :: "TimeSeriesPoint list \<Rightarrow> TimeSeriesPoint list" where
  "filterToWeeklyData data = data"

text \<open>One \<^verbatim>\<open><data_point>\<close> entry, as the \<^verbatim>\<open>fmt.Sprintf\<close> in the loop prints it.\<close>

definition xmlDataPoint :: "env \<Rightarrow> TimeSeriesPoint \<Rightarrow> string" where
  \<open>xmlDataPoint e point =
     ''  <data_point>\<newline>    <period>'' @ Period point @ ''</period>\<newline>    <total>''
       @ fmt_2f e (Total point) @ ''</total>\<newline>  </data_point>\<newline>''\<close>

definition periodLabelOf :: "string \<Rightarrow> string" where
  "periodLabelOf timePeriod =
     (if timePeriod = ''day'' then ''daily''
      else if timePeriod = ''week'' then ''weekly''
      else if timePeriod = ''month'' then ''monthly''
      else ''period'')"

text \<open>
  \<^verbatim>\<open>buildForecastPromptForPeriod\<close>. The source assigns \<^verbatim>\<open>xmlData\<close> twice; the value
  built from \<^verbatim>\<open>periodData\<close> is the one that reaches the prompt.
\<close>

definition buildForecastPromptForPeriod :: "env \<Rightarrow> ForecastRequest \<Rightarrow> string \<Rightarrow> string" where
  \<open>buildForecastPromptForPeriod e request timePeriod =
     (let filteredData = filterToLast12Months (TimeSeriesData request);
          periodData =
            (if timePeriod = ''day'' then filterToDailyData filteredData
             else if timePeriod = ''week'' then filterToWeeklyData filteredData
             else if timePeriod = ''month'' then filteredData
             else filteredData);
          xmlData =
            foldl (\<lambda>acc point. acc @ xmlDataPoint e point) ''<historical_data>\<newline>'' periodData
              @ ''</historical_data>'';
          forecastPeriods = getForecastPeriods timePeriod;
          periodLabel = periodLabelOf timePeriod
      in ''\<newline>You are a data analyst specializing in time series forecasting. You are given historical ''
           @ periodLabel @ '' sales data for a single category.\<newline>''
           @ ''Using this historical data, provide a '' @ periodLabel
           @ '' sales forecast for the next '' @ fmt_d forecastPeriods
           @ '' periods, highlighting potential seasonal fluctuations.\<newline>\<newline>''
           @ ''Things to consider:\<newline>''
           @ '' - Sales data is for a single category of multiple products.\<newline>''
           @ '' - The response should follow the JSON format below.\<newline>''
           @ '' - Consider trends, seasonality, and patterns in the data.\<newline>''
           @ '' - Remove any data points that are anomalies or outliers.\<newline>\<newline>''
           @ ''<historical_data>\<newline>'' @ xmlData @ ''\<newline></historical_data>\<newline>\<newline>''
           @ ''Please provide the forecast in JSON response format like this:\<newline>''
           @ ''[\<newline>''
           @ ''  {"period": "2024-01-01", "total": 1500.00},\<newline>''
           @ ''  {"period": "2024-01-02", "total": 1600.00}\<newline>''
           @ '']\<newline>\<newline>''
           @ ''Consider trends, seasonality, and patterns in the data.'')\<close>

definition chatGPTRequestFor :: "string \<Rightarrow> ChatGPTRequest" where
  \<open>chatGPTRequestFor prompt =
     \<lparr>Model = ''gpt-3.5-turbo'',
      Messages =
        [\<lparr>Role = ''system'',
          Content = ''You are a data analyst specializing in time series forecasting. Provide forecasts in JSON format with an array of objects containing 'period' and 'total' fields.''\<rparr>,
         \<lparr>Role = ''user'', Content = prompt\<rparr>]\<rparr>\<close>

section \<open>Forecast response parser\<close>

text \<open>
  The first loop of \<^verbatim>\<open>parseSinglePeriodChatGPTResponse\<close>:
  \<^verbatim>\<open>for i := 0; i < len(content)-1; i++ { if content[i] == '[' { start = i; break } }\<close>
  with \<^verbatim>\<open>start\<close> initially 0.
\<close>

function findStart :: "string \<Rightarrow> int \<Rightarrow> int" where
  "findStart content i =
     (if i < int (length content) - 1
      then (if content ! nat i = CHR ''['' then i else findStart content (i + 1))
      else 0)"
  by pat_completeness auto
termination
  by (relation "measure (\<lambda>(content, i). nat (int (length content) - 1 - i))") auto

declare findStart.simps [simp del]

text \<open>
  The second loop:
  \<^verbatim>\<open>for i := len(content) - 1; i > start; i-- { if content[i] == ']' { end = i + 1; break } }\<close>
  with \<^verbatim>\<open>end\<close> initially \<^verbatim>\<open>len(content)\<close>.
\<close>

function findEnd :: "string \<Rightarrow> int \<Rightarrow> int \<Rightarrow> int" where
  "findEnd content start i =
     (if start < i
      then (if content ! nat i = CHR '']'' then i + 1 else findEnd content start (i - 1))
      else int (length content))"
  by pat_completeness auto
termination
  by (relation "measure (\<lambda>(content, start, i). nat (i - start))") auto

declare findEnd.simps [simp del]

text \<open>
  The candidate payload \<^verbatim>\<open>content[start:end]\<close>, or \<open>None\<close> when \<^verbatim>\<open>start >= end\<close>.
\<close>

definition jsonCandidate :: "string \<Rightarrow> string option" where
  "jsonCandidate content =
     (let start = findStart content 0;
          endIdx = findEnd content start (int (length content) - 1)
      in if endIdx \<le> start then None
         else Some (take (nat (endIdx - start)) (drop (nat start) content)))"

text \<open>
  \<^verbatim>\<open>parseSinglePeriodChatGPTResponse\<close>: on success the decoded points and the whole
  content.
\<close>

definition parseSinglePeriodChatGPTResponse ::
  "env \<Rightarrow> ChatGPTResponse \<Rightarrow> failure + (TimeSeriesPoint list \<times> string)" where
  "parseSinglePeriodChatGPTResponse e response =
     (if length (Choices response) = 0 then Inl (Error ''no choices in ChatGPT response'')
      else
        (let content = Content (Choices response ! 0)
         in case jsonCandidate content of
              None \<Rightarrow> Inl (Error ''could not find JSON array in response'')
            | Some jsonStr \<Rightarrow>
                (case jsonUnmarshal e jsonStr of
                   Inl err \<Rightarrow> Inl (Error (''failed to parse single-period JSON: '' @ err))
                 | Inr forecast \<Rightarrow> Inr (forecast, content))))"

section \<open>Forecast orchestrator\<close>

text \<open>
  The statement \<^verbatim>\<open>return generateSimpleForecast(createRequestForPeriod(request,
  timePeriod)), reason, nil\<close>, which \<^verbatim>\<open>generateForecastForPeriod\<close> of
  \<^verbatim>\<open>services/sales_forecast.go\<close> executes at each of its failure points.
\<close>

definition returnSimpleForecast ::
  "env \<Rightarrow> ForecastRequest \<Rightarrow> string \<Rightarrow> string
     \<Rightarrow> failure + (TimeSeriesPoint list \<times> string)" where
  "returnSimpleForecast e request timePeriod reason =
     (case generateSimpleForecast e (createRequestForPeriod request timePeriod) of
        Inl f \<Rightarrow> Inl f
      | Inr forecast \<Rightarrow> Inr (forecast, reason))"

text \<open>\<^verbatim>\<open>generateForecastForPeriod\<close> of \<^verbatim>\<open>services/sales_forecast.go\<close>.\<close>

definition generateForecastForPeriod ::
  "env \<Rightarrow> ForecastRequest \<Rightarrow> string \<Rightarrow> failure + (TimeSeriesPoint list \<times> string)" where
  "generateForecastForPeriod e request timePeriod =
     (let apiKey = apiKeyEnv e
      in if apiKey = '''' then
           returnSimpleForecast e request timePeriod ''Simple forecast generated (no API key)''
         else if apiKey = '''' \<or> length apiKey < 10 then
           returnSimpleForecast e request timePeriod
             ''Simple forecast generated (invalid API key)''
         else if length apiKey < 3 \<or> take 3 apiKey \<noteq> ''sk-'' then
           returnSimpleForecast e request timePeriod
             ''Simple forecast generated (invalid API key format)''
         else
           (case testOpenAIAPI e apiKey of
              Some err \<Rightarrow>
                returnSimpleForecast e request timePeriod
                  ''Simple forecast generated (API test failed)''
            | None \<Rightarrow>
                (let prompt = buildForecastPromptForPeriod e request timePeriod
                 in case sendChatGPTRequest e apiKey (chatGPTRequestFor prompt) of
                      Inl err \<Rightarrow>
                        returnSimpleForecast e request timePeriod
                          ''Simple forecast generated (ChatGPT request failed)''
                    | Inr response \<Rightarrow>
                        (case parseSinglePeriodChatGPTResponse e response of
                           Inl (Error err) \<Rightarrow>
                             returnSimpleForecast e request timePeriod
                               ''Simple forecast generated (parsing failed)''
                         | Inl (Panic p) \<Rightarrow> Inl (Panic p)
                         | Inr (forecast, rawResponse) \<Rightarrow> Inr (forecast, rawResponse)))))"

text \<open>
  What the HTTP handler does: it answers a status with a JSON body, which is either an
  error object \<^verbatim>\<open>{"error": ...}\<close> or a \<^verbatim>\<open>ForecastResponse\<close>; or it returns the error
  that \<^verbatim>\<open>c.JSON\<close> returned, without having written an answer (the framework then answers
  HTTP 500); or it panics.
\<close>

datatype http_body = ErrorBody string | ForecastBody ForecastResponse

datatype http_result = JSON nat http_body | Failed string | Panicked string

text \<open>
  \<^verbatim>\<open>c.JSON(code, response)\<close> for a \<^verbatim>\<open>ForecastResponse\<close>: the encoder of
  \<^verbatim>\<open>encoding/json\<close> refuses an infinity and NaN with an \<^verbatim>\<open>UnsupportedValueError\<close> for
  the first such total, and then nothing is written.
\<close>

fun formatNonFinite :: "float64 \<Rightarrow> string" where
  "formatNonFinite PosInf = ''+Inf''"
| "formatNonFinite NegInf = ''-Inf''"
| "formatNonFinite x = ''NaN''"

definition c_JSON :: "nat \<Rightarrow> ForecastResponse \<Rightarrow> http_result" where
  "c_JSON code response =
     (case find (\<lambda>p. \<not> isFinite (Total p)) (Forecast response) of
        None \<Rightarrow> JSON code (ForecastBody response)
      | Some p \<Rightarrow> Failed (''json: unsupported value: '' @ formatNonFinite (Total p)))"

text \<open>
  \<^verbatim>\<open>GenerateSalesForecast\<close> of \<^verbatim>\<open>services/sales_forecast.go\<close>. The argument is the
  outcome of \<^verbatim>\<open>c.Bind(&request)\<close>: \<open>None\<close> when binding fails.
\<close>

definition GenerateSalesForecast :: "env \<Rightarrow> ForecastRequest option \<Rightarrow> http_result" where
  "GenerateSalesForecast e bound =
     (case bound of
        None \<Rightarrow> JSON 400 (ErrorBody ''Invalid request format'')
      | Some request \<Rightarrow>
          if length (TimeSeriesData request) = 0
          then JSON 400 (ErrorBody ''No time series data provided'')
          else
            (let timePeriod = (if TimePeriod request = '''' then ''month'' else TimePeriod request);
                 response = \<lparr>Forecast = [], ResponseTimePeriod = timePeriod,
                             StatusMessage = ''Forecast generated successfully'',
                             RawResponse = ''''\<rparr>
             in case generateForecastForPeriod e request timePeriod of
                  Inl (Error err) \<Rightarrow>
                    (case generateSimpleForecast e (createRequestForPeriod request timePeriod) of
                       Inl (Error err') \<Rightarrow> Panicked err'
                     | Inl (Panic p) \<Rightarrow> Panicked p
                     | Inr forecast \<Rightarrow> c_JSON 200 (response\<lparr>Forecast := forecast\<rparr>))
                | Inl (Panic p) \<Rightarrow> Panicked p
                | Inr (forecast, rawResponse) \<Rightarrow>
                    c_JSON 200 (response\<lparr>Forecast := forecast, RawResponse := rawResponse\<rparr>)))"

subsection \<open>The variant in \<^verbatim>\<open>internal/services/sales_forecast.go\<close>\<close>

text \<open>
  \<^verbatim>\<open>generateForecastForPeriod\<close> of \<^verbatim>\<open>internal/services/sales_forecast.go\<close>: every
  failure point returns an error; there is no API test and no statistical estimator in
  that file. Its prompt is the same string as above.
\<close>

definition generateForecastForPeriod_internal ::
  "env \<Rightarrow> ForecastRequest \<Rightarrow> string \<Rightarrow> failure + (TimeSeriesPoint list \<times> string)" where
  "generateForecastForPeriod_internal e request timePeriod =
     (let apiKey = apiKeyEnv e
      in if apiKey = '''' then Inl (Error ''no OpenAI API key found'')
         else if length apiKey < 10 then Inl (Error ''invalid OpenAI API key'')
         else if length apiKey < 3 \<or> take 3 apiKey \<noteq> ''sk-'' then
           Inl (Error ''invalid OpenAI API key format'')
         else
           (let prompt = buildForecastPromptForPeriod e request timePeriod
            in case sendChatGPTRequest e apiKey (chatGPTRequestFor prompt) of
                 Inl err \<Rightarrow> Inl (Error (''ChatGPT request failed: '' @ err))
               | Inr response \<Rightarrow>
                   (case parseSinglePeriodChatGPTResponse e response of
                      Inl (Error err) \<Rightarrow>
                        Inl (Error (''failed to parse ChatGPT response: '' @ err))
                    | Inl (Panic p) \<Rightarrow> Inl (Panic p)
                    | Inr (forecast, rawResponse) \<Rightarrow> Inr (forecast, rawResponse))))"

text \<open>\<^verbatim>\<open>GenerateSalesForecast\<close> of \<^verbatim>\<open>internal/services/sales_forecast.go\<close>.\<close>

definition GenerateSalesForecast_internal ::
  "env \<Rightarrow> ForecastRequest option \<Rightarrow> http_result" where
  "GenerateSalesForecast_internal e bound =
     (case bound of
        None \<Rightarrow> JSON 400 (ErrorBody ''Invalid request format'')
      | Some request \<Rightarrow>
          if length (TimeSeriesData request) = 0
          then JSON 400 (ErrorBody ''No time series data provided'')
          else
            (let timePeriod = (if TimePeriod request = '''' then ''month'' else TimePeriod request);
                 response = \<lparr>Forecast = [], ResponseTimePeriod = timePeriod,
                             StatusMessage = ''Forecast generated successfully'',
                             RawResponse = ''''\<rparr>
             in case generateForecastForPeriod_internal e request timePeriod of
                  Inl (Error err) \<Rightarrow> JSON 500 (ErrorBody ''Failed to generate forecast'')
                | Inl (Panic p) \<Rightarrow> Panicked p
                | Inr (forecast, rawResponse) \<Rightarrow>
                    c_JSON 200 (response\<lparr>Forecast := forecast, RawResponse := rawResponse\<rparr>)))"

section \<open>Period bucketer of the dashboard\<close>

text \<open>
  \<^verbatim>\<open>groupDataByPeriod\<close> and \<^verbatim>\<open>prepareTimeSeriesData\<close> of \<^verbatim>\<open>app/src/App.tsx\<close>. A JavaScript
  number that holds an amount is a \<^typ>\<open>float64\<close>. A \<^verbatim>\<open>Date\<close> method returns an integer or
  \<^verbatim>\<open>NaN\<close>: its result is an \<^typ>\<open>int option\<close> with \<open>None\<close> for \<^verbatim>\<open>NaN\<close>.
\<close>

record CategoryTotal =
  category_name :: string
  total_amount :: float64

text \<open>
  \<^verbatim>\<open>SalesData\<close> is an object from date strings to category totals; it is modelled by
  the list that \<^verbatim>\<open>Object.entries\<close> returns for it.
\<close>

type_synonym SalesData = "(string \<times> CategoryTotal list) list"

datatype TimePeriod = Day | Week | Month

record ForecastData =
  period :: string
  total :: float64

text \<open>
  The \<^verbatim>\<open>Date\<close> methods and \<^verbatim>\<open>localeCompare\<close> that the bucketer calls, over a type \<open>'d\<close> of
  date objects: they belong to the JavaScript engine and depend on its time zone and
  locale. \<^verbatim>\<open>toISOString\<close> throws on an invalid date (\<open>None\<close>).
\<close>

record 'd jsdate_lib =
  newDate :: "string \<Rightarrow> 'd"
  toISOString :: "'d \<Rightarrow> string option"
  getDate :: "'d \<Rightarrow> int option"
  getDay :: "'d \<Rightarrow> int option"
  getFullYear :: "'d \<Rightarrow> int option"
  getMonth :: "'d \<Rightarrow> int option"
  setDate :: "'d \<Rightarrow> int option \<Rightarrow> 'd"
  getTime :: "'d \<Rightarrow> int option"
  localeCompare :: "string \<Rightarrow> string \<Rightarrow> int"

text \<open>Arithmetic on numbers that may be \<^verbatim>\<open>NaN\<close>, and \<^verbatim>\<open>String(n)\<close>.\<close>

definition jsMinus :: "int option \<Rightarrow> int option \<Rightarrow> int option" where
  "jsMinus a b = (case (a, b) of (Some x, Some y) \<Rightarrow> Some (x - y) | _ \<Rightarrow> None)"

definition jsPlus :: "int option \<Rightarrow> int option \<Rightarrow> int option" where
  "jsPlus a b = (case (a, b) of (Some x, Some y) \<Rightarrow> Some (x + y) | _ \<Rightarrow> None)"

definition jsString :: "int option \<Rightarrow> string" where
  "jsString n = (case n of None \<Rightarrow> ''NaN'' | Some x \<Rightarrow> fmt_d x)"

text \<open>\<^verbatim>\<open>s.padStart(2, '0')\<close> and \<^verbatim>\<open>s.split('T')[0]\<close>.\<close>

definition padStart2 :: "string \<Rightarrow> string" where
  "padStart2 s = replicate (2 - length s) CHR ''0'' @ s"

definition beforeT :: "string \<Rightarrow> string" where
  "beforeT s = takeWhile (\<lambda>c. c \<noteq> CHR ''T'') s"

text \<open>
  The \<^verbatim>\<open>switch (period)\<close> of \<^verbatim>\<open>groupDataByPeriod\<close>: the key of one date string, or
  \<open>None\<close> when \<^verbatim>\<open>toISOString\<close> throws. The parameter \<^verbatim>\<open>period\<close> of the source is
  \<open>timePeriod\<close> here.
\<close>

definition periodKeyOf :: "'d jsdate_lib \<Rightarrow> TimePeriod \<Rightarrow> string \<Rightarrow> string option" where
  "periodKeyOf lib timePeriod dateStr =
     (let date = newDate lib dateStr
      in case timePeriod of
           Day \<Rightarrow> map_option beforeT (toISOString lib date)
         | Week \<Rightarrow>
             (let weekStart = setDate lib date (jsMinus (getDate lib date) (getDay lib date))
              in map_option beforeT (toISOString lib weekStart))
         | Month \<Rightarrow>
             Some (jsString (getFullYear lib date) @ ''-''
                     @ padStart2 (jsString (jsPlus (getMonth lib date) (Some 1)))))"

text \<open>\<^verbatim>\<open>categories.reduce((sum, category) => sum + category.total_amount, 0)\<close>.\<close>

definition periodTotalOf :: "CategoryTotal list \<Rightarrow> float64" where
  "periodTotalOf categories = foldl (\<lambda>sum category. sum + total_amount category) 0 categories"











section \<open>A decoder for the JSON fragment of forecast replies\<close>

text \<open>
  \<^verbatim>\<open>json.Unmarshal(data, &forecast)\<close> with \<^verbatim>\<open>forecast []TimeSeriesPoint\<close>, restricted to
  the texts that are an array of objects whose member values are strings without escape
  sequences and numbers without exponent. Member names are matched to the fields
  \<^verbatim>\<open>period\<close> and \<^verbatim>\<open>total\<close> without regard to letter case, other members are skipped, an
  absent member leaves the zero value, a number beyond the range of \<^verbatim>\<open>float64\<close> is an
  error. A text outside this fragment is answered with an error here. The decoder is used in the example environments only.
\<close>

datatype token =
  TLBracket | TRBracket | TLBrace | TRBrace | TColon | TComma
  | TString string | TNumber real

datatype lexmode = Plain | InString string | InNumber string

definition natOfDigits :: "string \<Rightarrow> nat" where
  "natOfDigits ds = foldl (\<lambda>a c. 10 * a + (of_char c - 48)) 0 ds"

text \<open>An unsigned JSON number without exponent: digits, optionally a point and digits.\<close>

definition unsignedOf :: "string \<Rightarrow> real option" where
  "unsignedOf s =
     (let ip = takeWhile isDigit s; rest = dropWhile isDigit s
      in if ip = [] \<or> (1 < length ip \<and> hd ip = CHR ''0'') then None
         else if rest = [] then Some (real (natOfDigits ip))
         else if hd rest = CHR ''.'' \<and> tl rest \<noteq> [] \<and> list_all isDigit (tl rest)
         then Some (real (natOfDigits ip)
                + real (natOfDigits (tl rest)) / 10 ^ length (tl rest))
         else None)"

definition numberOf :: "string \<Rightarrow> real option" where
  "numberOf s =
     (case s of
        [] \<Rightarrow> None
      | c # cs \<Rightarrow>
          if c = CHR ''-'' then map_option uminus (unsignedOf cs) else unsignedOf s)"

definition isSpace :: "char \<Rightarrow> bool" where
  "isSpace c = (c = CHR '' '' \<or> c = CHR 0x09 \<or> c = CHR 0x0A \<or> c = CHR 0x0D)"

definition punctuation :: "char \<Rightarrow> token option" where
  "punctuation c =
     map_of [(CHR ''['', TLBracket), (CHR '']'', TRBracket), (CHR ''{'', TLBrace),
             (CHR ''}'', TRBrace), (CHR '':'', TColon), (CHR '','', TComma)] c"

fun lexer :: "lexmode \<Rightarrow> string \<Rightarrow> token list option" where
  "lexer Plain [] = Some []"
| "lexer (InString acc) [] = None"
| "lexer (InNumber acc) [] = map_option (\<lambda>n. [TNumber n]) (numberOf (rev acc))"
| "lexer Plain (c # cs) =
     (if c = CHR 0x22 then lexer (InString []) cs
      else if isSpace c then lexer Plain cs
      else if isDigit c \<or> c = CHR ''-'' then lexer (InNumber [c]) cs
      else (case punctuation c of
              None \<Rightarrow> None
            | Some t \<Rightarrow> map_option (Cons t) (lexer Plain cs)))"
| "lexer (InString acc) (c # cs) =
     (if c = CHR 0x22 then map_option (Cons (TString (rev acc))) (lexer Plain cs)
      else if c = CHR 0x5C \<or> (of_char c :: nat) < 32 then None
      else lexer (InString (c # acc)) cs)"
| "lexer (InNumber acc) (c # cs) =
     (if isDigit c \<or> c = CHR ''.'' then lexer (InNumber (c # acc)) cs
      else (case numberOf (rev acc) of
              None \<Rightarrow> None
            | Some n \<Rightarrow>
                if isSpace c then map_option (Cons (TNumber n)) (lexer Plain cs)
                else (case punctuation c of
                        None \<Rightarrow> None
                      | Some t \<Rightarrow> map_option (\<lambda>ts. TNumber n # t # ts) (lexer Plain cs))))"

definition lowerChar :: "char \<Rightarrow> char" where
  "lowerChar c =
     (case map_of (zip ''ABCDEFGHIJKLMNOPQRSTUVWXYZ'' ''abcdefghijklmnopqrstuvwxyz'') c of
        None \<Rightarrow> c | Some l \<Rightarrow> l)"

definition setField :: "string \<Rightarrow> token \<Rightarrow> TimeSeriesPoint \<Rightarrow> TimeSeriesPoint option" where
  "setField k v p =
     (if map lowerChar k = ''period''
      then (case v of TString s \<Rightarrow> Some (p\<lparr>Period := s\<rparr>) | _ \<Rightarrow> None)
      else if map lowerChar k = ''total''
      then (case v of
              TNumber n \<Rightarrow>
                if \<bar>n\<bar> \<le> maxFloat64 then Some (p\<lparr>Total := Finite n\<rparr>) else None
            | _ \<Rightarrow> None)
      else (case v of TString s \<Rightarrow> Some p | TNumber n \<Rightarrow> Some p | _ \<Rightarrow> None))"

datatype pstate =
  ExpectArray | FirstElement | NextElement | AfterElement
  | FirstMember | NextMember | ExpectColon string | ExpectValue string | AfterMember
  | ExpectEnd

text \<open>
  One step of the decoder on one token: \<open>done\<close> holds the decoded elements in reverse,
  \<open>p\<close> the element being filled.
\<close>

fun parseStep ::
  "pstate \<Rightarrow> token \<Rightarrow> TimeSeriesPoint list \<Rightarrow> TimeSeriesPoint
     \<Rightarrow> (pstate \<times> TimeSeriesPoint list \<times> TimeSeriesPoint) option" where
  "parseStep ExpectArray TLBracket done p = Some (FirstElement, done, p)"
| "parseStep FirstElement TRBracket done p = Some (ExpectEnd, done, p)"
| "parseStep FirstElement TLBrace done p = Some (FirstMember, done, \<lparr>Period = '''', Total = 0\<rparr>)"
| "parseStep NextElement TLBrace done p = Some (FirstMember, done, \<lparr>Period = '''', Total = 0\<rparr>)"
| "parseStep AfterElement TComma done p = Some (NextElement, done, p)"
| "parseStep AfterElement TRBracket done p = Some (ExpectEnd, done, p)"
| "parseStep FirstMember TRBrace done p = Some (AfterElement, p # done, p)"
| "parseStep FirstMember (TString k) done p = Some (ExpectColon k, done, p)"
| "parseStep NextMember (TString k) done p = Some (ExpectColon k, done, p)"
| "parseStep (ExpectColon k) TColon done p = Some (ExpectValue k, done, p)"
| "parseStep (ExpectValue k) v done p =
     map_option (\<lambda>p'. (AfterMember, done, p')) (setField k v p)"
| "parseStep AfterMember TComma done p = Some (NextMember, done, p)"
| "parseStep AfterMember TRBrace done p = Some (AfterElement, p # done, p)"
| "parseStep st t done p = None"

fun parseTokens ::
  "pstate \<Rightarrow> TimeSeriesPoint list \<Rightarrow> TimeSeriesPoint \<Rightarrow> token list
     \<Rightarrow> TimeSeriesPoint list option" where
  "parseTokens st done p [] = (if st = ExpectEnd then Some (rev done) else None)"
| "parseTokens st done p (t # ts) =
     (case parseStep st t done p of
        None \<Rightarrow> None
      | Some (st', done', p') \<Rightarrow> parseTokens st' done' p' ts)"

definition decodeTimeSeries :: "string \<Rightarrow> string + TimeSeriesPoint list" where
  "decodeTimeSeries s =
     (case lexer Plain s of
        None \<Rightarrow> Inl ''invalid character''
      | Some ts \<Rightarrow>
          (case parseTokens ExpectArray [] \<lparr>Period = '''', Total = 0\<rparr> ts of
             None \<Rightarrow> Inl ''cannot unmarshal''
           | Some ps \<Rightarrow> Inr ps))"

section \<open>Example inputs\<close>

text \<open>
  A rendering of \<^verbatim>\<open>%.2f\<close> for the example environments: the value rounded to two
  decimals; an infinity and NaN as Go prints them.
\<close>

fun twoDecimals :: "float64 \<Rightarrow> string" where
  "twoDecimals (Finite x) =
     (let n = nat \<lfloor>\<bar>x\<bar> * 100 + 1 / 2\<rfloor>
      in (if x < 0 then ''-'' else '''') @ digits (n div 100) @ ''.''
           @ [digit_char (n div 10), digit_char n])"
| "twoDecimals PosInf = ''+Inf''"
| "twoDecimals NegInf = ''-Inf''"
| "twoDecimals NaN = ''NaN''"

text \<open>
  An invocation without credential and without network: the environment variable is
  unset, the clock reads 2026-11-02, and both HTTP exchanges would fail.
\<close>

definition offlineEnv :: env where
  "offlineEnv =
     \<lparr>apiKeyEnv = '''', timeNow = 20759, randFloat64 = (\<lambda>k. Finite (1 / 2)),
      testOpenAIAPI = (\<lambda>key. Some ''test request failed''),
      sendChatGPTRequest = (\<lambda>key req. Inl ''connection refused''),
      jsonUnmarshal = (\<lambda>s. Inl ''unexpected end of JSON input''),
      fmt_2f = twoDecimals\<rparr>"

definition twoMonths :: "TimeSeriesPoint list" where
  "twoMonths =
     [\<lparr>Period = ''2024-01'', Total = Finite 100\<rparr>, \<lparr>Period = ''2024-02'', Total = Finite 10\<rparr>]"

definition sparseMonths :: "TimeSeriesPoint list" where
  "sparseMonths =
     [\<lparr>Period = ''2022-01'', Total = Finite 100\<rparr>, \<lparr>Period = ''2024-01'', Total = Finite 200\<rparr>]"

definition threeMonths :: "TimeSeriesPoint list" where
  "threeMonths =
     [\<lparr>Period = ''2024-01'', Total = Finite 100\<rparr>, \<lparr>Period = ''2024-02'', Total = Finite 110\<rparr>,
      \<lparr>Period = ''2024-03'', Total = Finite 120\<rparr>]"

definition fourMonths :: "TimeSeriesPoint list" where
  "fourMonths =
     [\<lparr>Period = ''2024-01'', Total = Finite 100\<rparr>, \<lparr>Period = ''2024-02'', Total = Finite 110\<rparr>,
      \<lparr>Period = ''2024-03'', Total = Finite 120\<rparr>, \<lparr>Period = ''2024-04'', Total = Finite 130\<rparr>]"

text \<open>
  Totals of \<^verbatim>\<open>1e308\<close>: the sum of two of them exceeds the largest \<^verbatim>\<open>float64\<close>.
\<close>

definition hugeValue :: real where
  "hugeValue = 10 ^ 308"

definition hugeMonths :: "TimeSeriesPoint list" where
  "hugeMonths =
     [\<lparr>Period = ''2024-01'', Total = Finite hugeValue\<rparr>,
      \<lparr>Period = ''2024-02'', Total = Finite hugeValue\<rparr>]"

definition fiveHugeMonths :: "TimeSeriesPoint list" where
  "fiveHugeMonths =
     [\<lparr>Period = ''2024-01'', Total = Finite hugeValue\<rparr>,
      \<lparr>Period = ''2024-02'', Total = Finite hugeValue\<rparr>,
      \<lparr>Period = ''2024-03'', Total = Finite hugeValue\<rparr>,
      \<lparr>Period = ''2024-04'', Total = Finite hugeValue\<rparr>,
      \<lparr>Period = ''2024-05'', Total = Finite hugeValue\<rparr>]"

definition exampleReply :: string where
  \<open>exampleReply = ''Here you go: [{"period":"2024-02","total":500.0}] thanks''\<close>

definition examplePayload :: string where
  \<open>examplePayload = ''[{"period":"2024-02","total":500.0}]''\<close>

definition negativeReply :: string where
  \<open>negativeReply = ''[{"period": "2024-03", "total": -5}]''\<close>

text \<open>
  An invocation with a well-formed credential and a reachable provider that answers
  every request with the given text.
\<close>

definition providerEnv :: "string \<Rightarrow> env" where
  "providerEnv reply =
     \<lparr>apiKeyEnv = ''sk-0123456789abcdef'', timeNow = 20759, randFloat64 = (\<lambda>k. Finite (1 / 2)),
      testOpenAIAPI = (\<lambda>key. None),
      sendChatGPTRequest =
        (\<lambda>key req. Inr \<lparr>Choices = [\<lparr>Role = ''assistant'', Content = reply\<rparr>]\<rparr>),
      jsonUnmarshal = decodeTimeSeries,
      fmt_2f = twoDecimals\<rparr>"

text \<open>
  An instance of the \<^verbatim>\<open>Date\<close> methods for an engine in the UTC time zone, on date-only
  strings \<^verbatim>\<open>YYYY-MM-DD\<close>: a date object is its day number, or \<open>None\<close> when invalid.
  January 1, 1970 was a Thursday. Strings are compared by their bytes.
\<close>

fun compareBytes :: "nat list \<Rightarrow> nat list \<Rightarrow> int" where
  "compareBytes [] [] = 0"
| "compareBytes [] (y # ys) = - 1"
| "compareBytes (x # xs) [] = 1"
| "compareBytes (x # xs) (y # ys) =
     (if x < y then - 1 else if y < x then 1 else compareBytes xs ys)"

definition utcSetDate :: "go_time option \<Rightarrow> int option \<Rightarrow> go_time option" where
  "utcSetDate d n =
     (case (d, n) of
        (Some t, Some k) \<Rightarrow> Some (addToCivil (civil t) 0 0 (k - snd (snd (civil t))))
      | _ \<Rightarrow> None)"

definition utcLib :: "go_time option jsdate_lib" where
  "utcLib =
     \<lparr>newDate = Parse_2006_01_02,
      toISOString = map_option (\<lambda>t. Format_2006_01_02 t @ ''T00:00:00.000Z''),
      getDate = map_option (\<lambda>t. snd (snd (civil t))),
      getDay = map_option (\<lambda>t. (t + 4) mod 7),
      getFullYear = map_option (\<lambda>t. fst (civil t)),
      getMonth = map_option (\<lambda>t. fst (snd (civil t)) - 1),
      setDate = utcSetDate,
      getTime = map_option (\<lambda>t. t * 86400000),
      localeCompare = (\<lambda>a b. compareBytes (map of_char a) (map of_char b))\<rparr>"

definition weekScenario :: SalesData where
  "weekScenario =
     [(''2024-01-01'', [\<lparr>category_name = ''Books'', total_amount = Finite 100\<rparr>]),
      (''2024-01-02'', [\<lparr>category_name = ''Books'', total_amount = Finite 150\<rparr>]),
      (''2024-01-08'', [\<lparr>category_name = ''Books'', total_amount = Finite 200\<rparr>])]"



section \<open>Verified properties\<close>

subsection \<open>Evaluation of the library model\<close>

text \<open>Rewrite rules that evaluate the date functions on closed terms.\<close>

lemmas civil_eval = civil_def civil_doe_def civil_yoe_def civil_doy_def civil_ymd_def

lemmas date_eval = Date_def daysBeforeYear_def daysBefore_def daysIn_def isLeap_def
  AddDate_def zeroTime_def After_def Equal_def

lemmas format_eval = Format_2006_01_02_def Format_2006_01_def appendInt_def digits.simps
  digit_char_def fmt_d_def

lemmas parse_eval = Parse_2006_01_02_def Parse_2006_01_def digit_of_def isDigit_def

lemmas label_eval = parse_eval date_eval civil_eval format_eval

text \<open>Rewrite rules that evaluate \<^verbatim>\<open>float64\<close> arithmetic on numbers of moderate size.\<close>

lemma maxFloat64_large: "10 ^ 15 \<le> maxFloat64"
  by (simp add: maxFloat64_def)

lemma small_le_maxFloat64: "r \<le> 10 ^ 15 \<Longrightarrow> r \<le> maxFloat64"
  using maxFloat64_large by simp

lemma fromReal_small: "\<bar>r\<bar> \<le> 10 ^ 15 \<Longrightarrow> fromReal r = Finite r"
  using maxFloat64_large by (auto simp: fromReal_def)

lemmas float64_ops = zero_float64_def one_float64_def plus_float64_def minus_float64_def
  times_float64_def divide_float64_def less_float64_def

lemmas float64_eval = float64_ops float64OfInt_def fromReal_small

subsection \<open>C8: concrete label advancements\<close>

text \<open>
  C8. Advancing \<^verbatim>\<open>"2024-01"\<close> by one month gives \<^verbatim>\<open>"2024-02"\<close>, advancing
  \<^verbatim>\<open>"2024-12"\<close> by one month rolls the year over to \<^verbatim>\<open>"2025-01"\<close>, and advancing
  \<^verbatim>\<open>"2024-01-29"\<close> by three days rolls the month over to \<^verbatim>\<open>"2024-02-01"\<close>, whatever
  the current time is.
\<close>

theorem C8_advance_examples:
  "generateNextPeriod now ''2024-01'' ''month'' 1 = ''2024-02''
   \<and> generateNextPeriod now ''2024-12'' ''month'' 1 = ''2025-01''
   \<and> generateNextPeriod now ''2024-01-29'' ''day'' 3 = ''2024-02-01''"
  unfolding generateNextPeriod_def Let_def by (simp add: label_eval)

subsection \<open>Facts about the estimator\<close>

lemma getForecastPeriods_pos: "4 \<le> getForecastPeriods tp"
  by (simp add: getForecastPeriods_def)

lemma fillForecast_Inr: "0 \<le> n \<Longrightarrow> fillForecast n body = Inr (map body [0 ..< nat n])"
  by (simp add: fillForecast_def)

lemma seasonalPoint_Period:
  "Period (seasonalPoint e lp tp a t i) = generateNextPeriod (timeNow e) lp tp (int i + 1)"
  by (simp add: seasonalPoint_def Let_def)

lemma linearPoint_Period:
  "Period (linearPoint e lp tp a t i) = generateNextPeriod (timeNow e) lp tp (int i + 1)"
  by (simp add: linearPoint_def Let_def)

lemma generateSimpleForecast_long:
  assumes "2 \<le> length (filterToLast12Months (TimeSeriesData request))"
  shows "\<exists>a t. generateSimpleForecast e request
           = fillForecast (PeriodsToForecast request)
               (seasonalPoint e (Period (last (filterToLast12Months (TimeSeriesData request))))
                  (TimePeriod request) a t)
         \<or> generateSimpleForecast e request
           = fillForecast (PeriodsToForecast request)
               (linearPoint e (Period (last (filterToLast12Months (TimeSeriesData request))))
                  (TimePeriod request) a t)"
proof -
  let ?fd = "filterToLast12Months (TimeSeriesData request)"
  have ne: "?fd \<noteq> []" using assms by auto
  have lastp: "?fd ! (length ?fd - 1) = last ?fd"
    using ne by (simp add: last_conv_nth)
  have not_short: "\<not> length ?fd < 2" using assms by simp
  show ?thesis
    unfolding generateSimpleForecast_def Let_def trendSeasonalForecast_def
      linearForecast_def lastp if_not_P[OF not_short]
    by (cases "0 < length (take (length (map Total ?fd)
          - (if length (map Total ?fd) < 3 then length (map Total ?fd) else 3)) (map Total ?fd))")
      (simp_all only: if_True if_False, blast+)
qed

lemma default_label: 
  "tp \<noteq> ''day'' \<Longrightarrow> tp \<noteq> ''week'' \<Longrightarrow> tp \<noteq> ''month'' \<Longrightarrow>
   generateNextPeriod now lp tp k = ''forecast-'' @ fmt_d k"
  by (simp add: generateNextPeriod_def)

lemma upt_12: "[0 ..< 12] = [0, 1, 2, 3, 4, 5, 6, 7, 8, 9, 10, 11 :: nat]"
  by (simp add: upt_rec)

lemma default_labels_12:
  "map (\<lambda>i. ''forecast-'' @ fmt_d (int i + 1)) [0 ..< 12]
   = [''forecast-1'', ''forecast-2'', ''forecast-3'', ''forecast-4'', ''forecast-5'',
      ''forecast-6'', ''forecast-7'', ''forecast-8'', ''forecast-9'', ''forecast-10'',
      ''forecast-11'', ''forecast-12'']"
  unfolding upt_12 by (simp add: fmt_d_def digits.simps digit_char_def)

lemma filter_twoMonths: "filterToLast12Months twoMonths = twoMonths"
  unfolding filterToLast12Months_def twoMonths_def
  by (simp add: label_eval)

subsection \<open>C10: default labels for an unknown granularity\<close>

text \<open>
  C10. For a granularity other than \<^verbatim>\<open>"day"\<close>, \<^verbatim>\<open>"week"\<close> and \<^verbatim>\<open>"month"\<close>, and a
  series whose last-12-months filtered form has at least two points, the estimator as
  the orchestrator invokes it (after \<^verbatim>\<open>createRequestForPeriod\<close>) returns exactly twelve
  points, labelled \<^verbatim>\<open>forecast-1\<close> to \<^verbatim>\<open>forecast-12\<close> in this order.
\<close>

theorem C10_default_labels:
  assumes "tp \<noteq> ''day''" and "tp \<noteq> ''week''" and "tp \<noteq> ''month''"
    and "2 \<le> length (filterToLast12Months (TimeSeriesData request))"
  shows "\<exists>forecast. generateSimpleForecast e (createRequestForPeriod request tp) = Inr forecast
           \<and> map Period forecast
             = [''forecast-1'', ''forecast-2'', ''forecast-3'', ''forecast-4'', ''forecast-5'',
                ''forecast-6'', ''forecast-7'', ''forecast-8'', ''forecast-9'', ''forecast-10'',
                ''forecast-11'', ''forecast-12'']"
proof -
  let ?r = "createRequestForPeriod request tp"
  have n: "PeriodsToForecast ?r = 12"
    using assms(1-3) by (simp add: createRequestForPeriod_def getForecastPeriods_def)
  have tp: "TimePeriod ?r = tp" by (simp add: createRequestForPeriod_def)
  have fd: "2 \<le> length (filterToLast12Months (TimeSeriesData ?r))"
    using assms(4) by (simp add: createRequestForPeriod_def)
  from generateSimpleForecast_long[OF fd, of e] obtain a t where
    "generateSimpleForecast e ?r = fillForecast 12
        (seasonalPoint e (Period (last (filterToLast12Months (TimeSeriesData ?r)))) tp a t)
     \<or> generateSimpleForecast e ?r = fillForecast 12
        (linearPoint e (Period (last (filterToLast12Months (TimeSeriesData ?r)))) tp a t)"
    unfolding n tp by blast
  moreover have fill12: "\<And>body. fillForecast 12 body = Inr (map body [0 ..< 12])"
    by (simp add: fillForecast_def)
  moreover have "map Period (map (seasonalPoint e lp tp a t) [0 ..< 12])
      = [''forecast-1'', ''forecast-2'', ''forecast-3'', ''forecast-4'', ''forecast-5'',
         ''forecast-6'', ''forecast-7'', ''forecast-8'', ''forecast-9'', ''forecast-10'',
         ''forecast-11'', ''forecast-12'']" for lp
    by (simp only: map_map o_def seasonalPoint_Period default_label[OF assms(1-3)]
        default_labels_12)
  moreover have "map Period (map (linearPoint e lp tp a t) [0 ..< 12])
      = [''forecast-1'', ''forecast-2'', ''forecast-3'', ''forecast-4'', ''forecast-5'',
         ''forecast-6'', ''forecast-7'', ''forecast-8'', ''forecast-9'', ''forecast-10'',
         ''forecast-11'', ''forecast-12'']" for lp
    by (simp only: map_map o_def linearPoint_Period default_label[OF assms(1-3)]
        default_labels_12)
  ultimately show ?thesis by metis
qed

theorem C10_default_labels_witness:
  "''quarter'' \<noteq> ''day'' \<and> ''quarter'' \<noteq> ''week'' \<and> ''quarter'' \<noteq> ''month''
   \<and> 2 \<le> length (filterToLast12Months
        (TimeSeriesData \<lparr>TimeSeriesData = twoMonths, TimePeriod = ''quarter'', PeriodsToForecast = 0\<rparr>))
   \<and> (\<exists>forecast. generateSimpleForecast offlineEnv
          (createRequestForPeriod
             \<lparr>TimeSeriesData = twoMonths, TimePeriod = ''quarter'', PeriodsToForecast = 0\<rparr>
             ''quarter'') = Inr forecast
        \<and> map Period forecast
          = [''forecast-1'', ''forecast-2'', ''forecast-3'', ''forecast-4'', ''forecast-5'',
             ''forecast-6'', ''forecast-7'', ''forecast-8'', ''forecast-9'', ''forecast-10'',
             ''forecast-11'', ''forecast-12''])"
proof -
  have h: "2 \<le> length (filterToLast12Months
        (TimeSeriesData \<lparr>TimeSeriesData = twoMonths, TimePeriod = ''quarter'', PeriodsToForecast = 0\<rparr>))"
    by (simp add: filter_twoMonths) (simp add: twoMonths_def)
  have q: "''quarter'' \<noteq> ''day''" "''quarter'' \<noteq> ''week''" "''quarter'' \<noteq> ''month''"
    by simp_all
  show ?thesis
    using C10_default_labels[OF q h, of offlineEnv] h q by blast
qed


lemma keepFromCutoff_length: "length (keepFromCutoff c data) \<le> length data"
  by (induction data) (auto split: option.splits)

lemma filterToLast12Months_length: "length (filterToLast12Months data) \<le> length data"
  by (simp add: filterToLast12Months_def keepFromCutoff_length)

lemma generateSimpleForecast_short:
  "length (filterToLast12Months (TimeSeriesData request)) < 2 \<Longrightarrow>
   generateSimpleForecast e request = Inr []"
  by (simp add: generateSimpleForecast_def Let_def)

lemma createRequestForPeriod_fields:
  "TimeSeriesData (createRequestForPeriod request tp) = TimeSeriesData request"
  "TimePeriod (createRequestForPeriod request tp) = tp"
  "PeriodsToForecast (createRequestForPeriod request tp) = getForecastPeriods tp"
  by (simp_all add: createRequestForPeriod_def)

lemma generateSimpleForecast_create:
  "\<exists>forecast. generateSimpleForecast e (createRequestForPeriod request tp) = Inr forecast
     \<and> length forecast
       = (if length (filterToLast12Months (TimeSeriesData request)) < 2 then 0
          else nat (getForecastPeriods tp))"
proof (cases "length (filterToLast12Months (TimeSeriesData request)) < 2")
  case True
  then show ?thesis
    by (simp add: generateSimpleForecast_short createRequestForPeriod_fields)
next
  case False
  then have fd: "2 \<le> length (filterToLast12Months
      (TimeSeriesData (createRequestForPeriod request tp)))"
    by (simp add: createRequestForPeriod_fields)
  have n: "0 \<le> getForecastPeriods tp"
    using getForecastPeriods_pos[of tp] by simp
  from generateSimpleForecast_long[OF fd, of e] False n show ?thesis
    by (auto simp: createRequestForPeriod_fields fillForecast_Inr)
qed

lemma returnSimpleForecast_Inr:
  "\<exists>forecast. generateSimpleForecast e (createRequestForPeriod request tp) = Inr forecast
     \<and> returnSimpleForecast e request tp reason = Inr (forecast, reason)"
  using generateSimpleForecast_create[of e request tp]
  by (auto simp: returnSimpleForecast_def)

lemma generateForecastForPeriod_invalid_key:
  assumes "apiKeyEnv e = '''' \<or> length (apiKeyEnv e) < 10 \<or> take 3 (apiKeyEnv e) \<noteq> ''sk-''"
  shows "\<exists>forecast reason.
           generateSimpleForecast e (createRequestForPeriod request tp) = Inr forecast
         \<and> generateForecastForPeriod e request tp = Inr (forecast, reason)
         \<and> reason \<in> {''Simple forecast generated (no API key)'',
                      ''Simple forecast generated (invalid API key)'',
                      ''Simple forecast generated (invalid API key format)''}"
proof -
  have r: "\<And>reason. \<exists>forecast.
      generateSimpleForecast e (createRequestForPeriod request tp) = Inr forecast
      \<and> returnSimpleForecast e request tp reason = Inr (forecast, reason)"
    by (rule returnSimpleForecast_Inr)
  consider (a) "apiKeyEnv e = ''''"
    | (b) "apiKeyEnv e \<noteq> ''''" "length (apiKeyEnv e) < 10"
    | (c) "apiKeyEnv e \<noteq> ''''" "\<not> length (apiKeyEnv e) < 10" "take 3 (apiKeyEnv e) \<noteq> ''sk-''"
    using assms by blast
  then show ?thesis
  proof cases
    case a
    with r[of "''Simple forecast generated (no API key)''"] show ?thesis
      by (auto simp: generateForecastForPeriod_def Let_def)
  next
    case b
    with r[of "''Simple forecast generated (invalid API key)''"] show ?thesis
      by (auto simp: generateForecastForPeriod_def Let_def)
  next
    case c
    with r[of "''Simple forecast generated (invalid API key format)''"] show ?thesis
      by (auto simp: generateForecastForPeriod_def Let_def)
  qed
qed

subsection \<open>C3: a label that does not parse\<close>

text \<open>
  C3 (as amended). \<^verbatim>\<open>generateNextPeriod\<close> never fails. When the label does not parse as
  \<^verbatim>\<open>YYYY-MM-DD\<close>, the day and week granularities advance from the current time instead;
  when it does not parse as \<^verbatim>\<open>YYYY-MM\<close>, the month granularity advances from the label
  read as \<^verbatim>\<open>YYYY-MM-DD\<close> if that parses and from the current time otherwise.
\<close>

theorem C3_unparsable_label_uses_now:
  "(Parse_2006_01_02 l = None \<longrightarrow>
      generateNextPeriod now l ''day'' k = Format_2006_01_02 (AddDate now 0 0 k)
    \<and> generateNextPeriod now l ''week'' k = Format_2006_01_02 (AddDate now 0 0 (k * 7)))
   \<and> (Parse_2006_01 l = None \<longrightarrow>
      generateNextPeriod now l ''month'' k
        = Format_2006_01
            (AddDate (case Parse_2006_01_02 l of Some t \<Rightarrow> t | None \<Rightarrow> now) 0 k 0))"
  by (simp add: generateNextPeriod_def)

lemma not_a_date: "Parse_2006_01_02 ''not-a-date'' = None" "Parse_2006_01 ''not-a-date'' = None"
  by (simp_all add: parse_eval)

theorem C3_unparsable_label_uses_now_witness:
  "Parse_2006_01_02 ''not-a-date'' = None \<and> Parse_2006_01 ''not-a-date'' = None
   \<and> generateNextPeriod 20759 ''not-a-date'' ''day'' 1 = Format_2006_01_02 (AddDate 20759 0 0 1)
   \<and> generateNextPeriod 20759 ''not-a-date'' ''week'' 1
       = Format_2006_01_02 (AddDate 20759 0 0 (1 * 7))
   \<and> generateNextPeriod 20759 ''not-a-date'' ''month'' 1 = Format_2006_01 (AddDate 20759 0 1 0)"
  using C3_unparsable_label_uses_now[of "''not-a-date''" 20759 1] not_a_date
  by simp

text \<open>
  For the label \<^verbatim>\<open>not-a-date\<close> the result is a label computed from the clock: it
  follows 2026-11-02 when the clock reads that day and 1970-01-01 when it reads that.
\<close>

theorem C3_silent_substitution_counterexample:
  "Parse_2006_01_02 ''not-a-date'' = None \<and> Parse_2006_01 ''not-a-date'' = None
   \<and> generateNextPeriod 20759 ''not-a-date'' ''day'' 1 = ''2026-11-03''
   \<and> generateNextPeriod 0 ''not-a-date'' ''day'' 1 = ''1970-01-02''
   \<and> generateNextPeriod 20759 ''not-a-date'' ''week'' 1 = ''2026-11-09''
   \<and> generateNextPeriod 20759 ''not-a-date'' ''month'' 1 = ''2026-12''"
  unfolding generateNextPeriod_def Let_def by (simp add: label_eval)


subsection \<open>Facts about the response parser\<close>

lemma lex_example:
  "lexer Plain examplePayload
   = Some [TLBracket, TLBrace, TString ''period'', TColon, TString ''2024-02'', TComma,
           TString ''total'', TColon, TNumber 500, TRBrace, TRBracket]"
  by (simp add: examplePayload_def isSpace_def isDigit_def punctuation_def numberOf_def
      unsignedOf_def natOfDigits_def)

lemma decode_example:
  "decodeTimeSeries examplePayload = Inr [\<lparr>Period = ''2024-02'', Total = Finite 500\<rparr>]"
  by (simp add: decodeTimeSeries_def lex_example setField_def lowerChar_def
      small_le_maxFloat64)

lemma decode_negative:
  "decodeTimeSeries negativeReply = Inr [\<lparr>Period = ''2024-03'', Total = Finite (- 5)\<rparr>]"
  by (simp add: decodeTimeSeries_def negativeReply_def isSpace_def isDigit_def punctuation_def
      numberOf_def unsignedOf_def natOfDigits_def setField_def lowerChar_def
      small_le_maxFloat64)

lemma findStart_skip:
  assumes "CHR ''['' \<notin> set pre" and "rest \<noteq> []" and "k \<le> length pre"
  shows "findStart (pre @ CHR ''['' # rest) (int k) = int (length pre)"
  using assms(3)
proof (induction "length pre - k" arbitrary: k)
  case 0
  then have k: "k = length pre" by simp
  have "int k < int (length (pre @ CHR ''['' # rest)) - 1"
    using assms(2) k by (cases rest) auto
  then show ?case
    by (subst findStart.simps) (simp add: k)
next
  case (Suc n)
  then have lt: "k < length pre" by simp
  have ne: "(pre @ CHR ''['' # rest) ! k \<noteq> CHR ''[''"
    by (simp add: nth_append lt) (metis assms(1) lt nth_mem)
  have c: "int k < int (length (pre @ CHR ''['' # rest)) - 1"
    using lt by simp
  have "findStart (pre @ CHR ''['' # rest) (int k)
      = findStart (pre @ CHR ''['' # rest) (int (Suc k))"
    using c ne by (subst findStart.simps) (simp add: add.commute)
  also have "\<dots> = int (length pre)"
    using Suc lt by (intro Suc.hyps(1)) auto
  finally show ?case .
qed

lemma findEnd_skip:
  assumes "CHR '']'' \<notin> set post" and "start < int (length xs)" and "m \<le> length post"
  shows "findEnd (xs @ CHR '']'' # post) start (int (length xs + m)) = int (length xs) + 1"
  using assms(3)
proof (induction m)
  case 0
  show ?case
    using assms(2) by (subst findEnd.simps) simp
next
  case (Suc m)
  then have lt: "m < length post" by simp
  have ne: "(xs @ CHR '']'' # post) ! (length xs + Suc m) \<noteq> CHR '']''"
    by (simp add: nth_append) (metis assms(1) lt nth_mem)
  have "findEnd (xs @ CHR '']'' # post) start (int (length xs + Suc m))
      = findEnd (xs @ CHR '']'' # post) start (int (length xs + m))"
    using assms(2) ne by (subst findEnd.simps) (simp add: nat_add_distrib)
  also have "\<dots> = int (length xs) + 1"
    using Suc by simp
  finally show ?case .
qed

lemma jsonCandidate_brackets:
  assumes "CHR ''['' \<notin> set pre" and "CHR '']'' \<notin> set post"
  shows "jsonCandidate (pre @ CHR ''['' # mid @ CHR '']'' # post)
         = Some (CHR ''['' # mid @ [CHR '']''])"
proof -
  let ?c = "pre @ CHR ''['' # mid @ CHR '']'' # post"
  have s: "findStart ?c 0 = int (length pre)"
    using findStart_skip[OF assms(1), of "mid @ CHR '']'' # post" 0] by simp
  have c: "?c = (pre @ CHR ''['' # mid) @ CHR '']'' # post" by simp
  have "findEnd ((pre @ CHR ''['' # mid) @ CHR '']'' # post) (int (length pre))
          (int (length (pre @ CHR ''['' # mid) + length post))
        = int (length (pre @ CHR ''['' # mid)) + 1"
    by (rule findEnd_skip[OF assms(2)]) simp_all
  then have e: "findEnd ?c (int (length pre)) (int (length ?c) - 1)
      = int (length pre) + int (length mid) + 2"
    by (simp add: algebra_simps)
  have n: "nat (int (length mid) + 2) = Suc (Suc (length mid))" by simp
  show ?thesis
    unfolding jsonCandidate_def Let_def s e
    by (simp add: n)
qed


lemma exampleReply_split:
  "exampleReply = ''Here you go: '' @ CHR ''['' # butlast (tl examplePayload) @ CHR '']'' # '' thanks''"
  by (simp add: exampleReply_def examplePayload_def)

lemma examplePayload_split:
  "CHR ''['' # butlast (tl examplePayload) @ [CHR '']''] = examplePayload"
  by (simp add: examplePayload_def)

lemma jsonCandidate_exampleReply: "jsonCandidate exampleReply = Some examplePayload"
proof -
  have "jsonCandidate (''Here you go: '' @ CHR ''['' # butlast (tl examplePayload)
          @ CHR '']'' # '' thanks'')
      = Some (CHR ''['' # butlast (tl examplePayload) @ [CHR '']''])"
    by (rule jsonCandidate_brackets) simp_all
  then show ?thesis
    unfolding exampleReply_split[symmetric] examplePayload_split .
qed

lemma parse_first_choice:
  "parseSinglePeriodChatGPTResponse e
     \<lparr>Choices = \<lparr>Role = role, Content = content\<rparr> # others\<rparr>
   = (case jsonCandidate content of
        None \<Rightarrow> Inl (Error ''could not find JSON array in response'')
      | Some jsonStr \<Rightarrow>
          (case jsonUnmarshal e jsonStr of
             Inl err \<Rightarrow> Inl (Error (''failed to parse single-period JSON: '' @ err))
           | Inr forecast \<Rightarrow> Inr (forecast, content)))"
  by (simp add: parseSinglePeriodChatGPTResponse_def)

lemma parse_with_candidate:
  assumes "jsonCandidate content = Some payload" and "jsonUnmarshal e payload = Inr ps"
  shows "parseSinglePeriodChatGPTResponse e \<lparr>Choices = [\<lparr>Role = role, Content = content\<rparr>]\<rparr>
         = Inr (ps, content)"
  using assms by (simp add: parse_first_choice)

lemma parse_success:
  assumes "parseSinglePeriodChatGPTResponse e reply = Inr (forecast, raw)"
  shows "Choices reply \<noteq> [] \<and> raw = Content (Choices reply ! 0)
       \<and> (\<exists>payload. jsonCandidate (Content (Choices reply ! 0)) = Some payload
            \<and> jsonUnmarshal e payload = Inr forecast)"
  using assms
  by (auto simp: parseSinglePeriodChatGPTResponse_def Let_def
      split: if_splits option.splits sum.splits)

lemma parse_no_panic: "parseSinglePeriodChatGPTResponse e reply \<noteq> Inl (Panic p)"
  by (simp add: parseSinglePeriodChatGPTResponse_def Let_def split: option.splits sum.splits)

lemma providerEnv_fields:
  "apiKeyEnv (providerEnv reply) = ''sk-0123456789abcdef''"
  "testOpenAIAPI (providerEnv reply) key = None"
  "sendChatGPTRequest (providerEnv reply) key req
     = Inr \<lparr>Choices = [\<lparr>Role = ''assistant'', Content = reply\<rparr>]\<rparr>"
  "jsonUnmarshal (providerEnv reply) = decodeTimeSeries"
  by (simp_all add: providerEnv_def)

subsection \<open>The orchestrator returns a forecast, the handler encodes it\<close>

lemma generateForecastForPeriod_total:
  "\<exists>forecast raw. generateForecastForPeriod e request tp = Inr (forecast, raw)
     \<and> (generateSimpleForecast e (createRequestForPeriod request tp) = Inr forecast
        \<or> (\<exists>reply.
              sendChatGPTRequest e (apiKeyEnv e)
                (chatGPTRequestFor (buildForecastPromptForPeriod e request tp)) = Inr reply
            \<and> parseSinglePeriodChatGPTResponse e reply = Inr (forecast, raw)))"
proof -
  have r: "\<And>reason. \<exists>forecast.
      generateSimpleForecast e (createRequestForPeriod request tp) = Inr forecast
      \<and> returnSimpleForecast e request tp reason = Inr (forecast, reason)"
    by (rule returnSimpleForecast_Inr)
  show ?thesis
  proof (cases "apiKeyEnv e = '''' \<or> length (apiKeyEnv e) < 10 \<or> take 3 (apiKeyEnv e) \<noteq> ''sk-''")
    case True
    from generateForecastForPeriod_invalid_key[OF True, of request tp] show ?thesis by blast
  next
    case valid: False
    show ?thesis
    proof (cases "testOpenAIAPI e (apiKeyEnv e)")
      case (Some err)
      with valid r[of "''Simple forecast generated (API test failed)''"] show ?thesis
        by (auto simp: generateForecastForPeriod_def Let_def)
    next
      case None
      show ?thesis
      proof (cases "sendChatGPTRequest e (apiKeyEnv e)
            (chatGPTRequestFor (buildForecastPromptForPeriod e request tp))")
        case (Inl err)
        with valid None r[of "''Simple forecast generated (ChatGPT request failed)''"]
        show ?thesis
          by (auto simp: generateForecastForPeriod_def Let_def)
      next
        case (Inr reply)
        show ?thesis
        proof (cases "parseSinglePeriodChatGPTResponse e reply")
          case (Inl f)
          then obtain err where "parseSinglePeriodChatGPTResponse e reply = Inl (Error err)"
            using parse_no_panic[of e reply] by (cases f) auto
          with valid None Inr r[of "''Simple forecast generated (parsing failed)''"]
          show ?thesis
            by (auto simp: generateForecastForPeriod_def Let_def)
        next
          case parsed: (Inr res)
          with valid None Inr show ?thesis
            by (cases res) (auto simp: generateForecastForPeriod_def Let_def)
        qed
      qed
    qed
  qed
qed

lemma c_JSON_finite:
  "list_all (\<lambda>p. isFinite (Total p)) (Forecast response) \<Longrightarrow>
   c_JSON code response = JSON code (ForecastBody response)"
  by (simp add: c_JSON_def find_None_iff list_all_iff split: option.splits)

lemma c_JSON_not_finite:
  "\<not> list_all (\<lambda>p. isFinite (Total p)) (Forecast response) \<Longrightarrow>
   \<exists>err. c_JSON code response = Failed err"
  by (cases "find (\<lambda>p. \<not> isFinite (Total p)) (Forecast response)")
    (auto simp: c_JSON_def find_None_iff list_all_iff)

lemma c_JSON_answered:
  assumes "c_JSON code response = JSON code' body"
  shows "code' = code \<and> body = ForecastBody response
       \<and> list_all (\<lambda>p. isFinite (Total p)) (Forecast response)"
  using assms c_JSON_not_finite[of response code] c_JSON_finite[of response code]
  by (cases "list_all (\<lambda>p. isFinite (Total p)) (Forecast response)") auto

lemma GenerateSalesForecast_answer:
  assumes "TimeSeriesData request \<noteq> []"
    and "tp = (if TimePeriod request = '''' then ''month'' else TimePeriod request)"
    and "generateForecastForPeriod e request tp = Inr (forecast, raw)"
  shows "GenerateSalesForecast e (Some request)
         = c_JSON 200 \<lparr>Forecast = forecast, ResponseTimePeriod = tp,
             StatusMessage = ''Forecast generated successfully'', RawResponse = raw\<rparr>"
  using assms(1,3) unfolding assms(2)
  by (auto simp: GenerateSalesForecast_def Let_def)

lemma GenerateSalesForecast_empty:
  "TimeSeriesData request = [] \<Longrightarrow>
   GenerateSalesForecast e (Some request) = JSON 400 (ErrorBody ''No time series data provided'')"
  by (simp add: GenerateSalesForecast_def)

subsection \<open>The two branches of the estimator\<close>

lemma generateSimpleForecast_few:
  assumes fd: "fd = filterToLast12Months (TimeSeriesData request)"
    and n: "length fd = 2 \<or> length fd = 3"
  shows "generateSimpleForecast e request
     = linearForecast e request fd
         (sumValues (map Total fd) / float64OfInt (int (length fd))) (map Total fd)"
proof -
  have w: "(if length (map Total fd) < 3 then length (map Total fd) else 3) = length fd"
    using n by auto
  have ns: "\<not> length fd < 2" using n by auto
  show ?thesis
    unfolding generateSimpleForecast_def Let_def fd[symmetric] w if_not_P[OF ns]
    by simp
qed

lemma generateSimpleForecast_many:
  assumes fd: "fd = filterToLast12Months (TimeSeriesData request)"
    and n: "4 \<le> length fd"
  shows "generateSimpleForecast e request
     = trendSeasonalForecast e request fd
         (sumValues (drop (length fd - 3) (map Total fd)) / float64OfInt 3)
         (take (length fd - 3) (map Total fd)) 3"
proof -
  have w: "(if length (map Total fd) < 3 then length (map Total fd) else 3) = 3"
    using n by auto
  have ns: "\<not> length fd < 2" using n by auto
  have l: "int (length (drop (length (map Total fd) - 3) (map Total fd))) = 3"
    using n by simp
  have o: "0 < length (take (length (map Total fd) - 3) (map Total fd))"
    using n by simp
  show ?thesis
    unfolding generateSimpleForecast_def Let_def fd[symmetric] w if_not_P[OF ns] if_P[OF o] l
    by simp
qed

lemma filter_sparseMonths:
  "filterToLast12Months sparseMonths = [\<lparr>Period = ''2024-01'', Total = Finite 200\<rparr>]"
  unfolding filterToLast12Months_def sparseMonths_def
  by (simp add: label_eval)

lemma filter_threeMonths: "filterToLast12Months threeMonths = threeMonths"
  unfolding filterToLast12Months_def threeMonths_def
  by (simp add: label_eval)

lemma filter_fourMonths: "filterToLast12Months fourMonths = fourMonths"
  unfolding filterToLast12Months_def fourMonths_def
  by (simp add: label_eval)

lemma months_after_2024_02:
  "generateNextPeriod now ''2024-02'' ''month'' 1 = ''2024-03''"
  "generateNextPeriod now ''2024-02'' ''month'' 2 = ''2024-04''"
  "generateNextPeriod now ''2024-02'' ''month'' 3 = ''2024-05''"
  "generateNextPeriod now ''2024-02'' ''month'' 4 = ''2024-06''"
  "generateNextPeriod now ''2024-02'' ''month'' 5 = ''2024-07''"
  "generateNextPeriod now ''2024-02'' ''month'' 6 = ''2024-08''"
  unfolding generateNextPeriod_def Let_def by (simp_all add: label_eval)

lemma months_after_2024_03:
  "generateNextPeriod now ''2024-03'' ''month'' 1 = ''2024-04''"
  "generateNextPeriod now ''2024-03'' ''month'' 2 = ''2024-05''"
  "generateNextPeriod now ''2024-03'' ''month'' 3 = ''2024-06''"
  "generateNextPeriod now ''2024-03'' ''month'' 4 = ''2024-07''"
  "generateNextPeriod now ''2024-03'' ''month'' 5 = ''2024-08''"
  "generateNextPeriod now ''2024-03'' ''month'' 6 = ''2024-09''"
  unfolding generateNextPeriod_def Let_def by (simp_all add: label_eval)

lemma upt_6: "[0 ..< 6] = [0, 1, 2, 3, 4, 5 :: nat]"
  by (simp add: upt_rec)

lemma fillForecast_6: "fillForecast 6 body = Inr (map body [0, 1, 2, 3, 4, 5])"
  by (simp add: fillForecast_def upt_6)

lemma offlineEnv_key: "apiKeyEnv offlineEnv = []"
  by (simp add: offlineEnv_def)

text \<open>The series 100, 10 of two months is forecast as 10 and then 0: the clamp applies.\<close>

lemma generateSimpleForecast_twoMonths:
  "generateSimpleForecast offlineEnv
     (createRequestForPeriod
        \<lparr>TimeSeriesData = twoMonths, TimePeriod = ''month'', PeriodsToForecast = 0\<rparr> ''month'')
   = Inr [\<lparr>Period = ''2024-03'', Total = Finite 10\<rparr>, \<lparr>Period = ''2024-04'', Total = Finite 0\<rparr>,
          \<lparr>Period = ''2024-05'', Total = Finite 0\<rparr>, \<lparr>Period = ''2024-06'', Total = Finite 0\<rparr>,
          \<lparr>Period = ''2024-07'', Total = Finite 0\<rparr>, \<lparr>Period = ''2024-08'', Total = Finite 0\<rparr>]"
proof -
  let ?r = "createRequestForPeriod
        \<lparr>TimeSeriesData = twoMonths, TimePeriod = ''month'', PeriodsToForecast = 0\<rparr> ''month''"
  have r: "?r = \<lparr>TimeSeriesData = twoMonths, TimePeriod = ''month'', PeriodsToForecast = 6\<rparr>"
    by (simp add: createRequestForPeriod_def getForecastPeriods_def)
  have fd: "twoMonths = filterToLast12Months (TimeSeriesData ?r)"
    by (simp add: r filter_twoMonths)
  have n: "length twoMonths = 2 \<or> length twoMonths = 3"
    by (simp add: twoMonths_def)
  have avg: "sumValues (map Total twoMonths) / float64OfInt (int (length twoMonths)) = Finite 55"
    by (simp add: sumValues_def twoMonths_def float64_eval)
  have "generateSimpleForecast offlineEnv ?r
      = linearForecast offlineEnv ?r twoMonths (Finite 55) (map Total twoMonths)"
    using generateSimpleForecast_few[OF fd n, of offlineEnv] unfolding avg .
  also have "\<dots> = Inr [\<lparr>Period = ''2024-03'', Total = Finite 10\<rparr>,
          \<lparr>Period = ''2024-04'', Total = Finite 0\<rparr>,
          \<lparr>Period = ''2024-05'', Total = Finite 0\<rparr>, \<lparr>Period = ''2024-06'', Total = Finite 0\<rparr>,
          \<lparr>Period = ''2024-07'', Total = Finite 0\<rparr>, \<lparr>Period = ''2024-08'', Total = Finite 0\<rparr>]"
    unfolding r
    by (simp add: linearForecast_def fillForecast_6 linearPoint_def twoMonths_def
        months_after_2024_02 float64_eval)
  finally show ?thesis .
qed

subsection \<open>Sign of the fallback's values\<close>

lemma clamp_not_negative: "\<not> (if v < 0 then 0 else v) < (0::float64)"
  by (cases v) (simp_all add: float64_ops)

lemma clamp_finite_nonneg: "(if v < 0 then 0 else v) = Finite x \<Longrightarrow> 0 \<le> x"
  by (cases v) (auto simp: float64_ops split: if_splits)

lemma seasonalPoint_Total:
  "\<not> Total (seasonalPoint e lp tp a t i) < 0"
  "Total (seasonalPoint e lp tp a t i) = Finite x \<Longrightarrow> 0 \<le> x"
  unfolding seasonalPoint_def Let_def
  by (simp_all only: TimeSeriesPoint.simps clamp_not_negative not_False_eq_True
      clamp_finite_nonneg)

lemma linearPoint_Total:
  "\<not> Total (linearPoint e lp tp a t i) < 0"
  "Total (linearPoint e lp tp a t i) = Finite x \<Longrightarrow> 0 \<le> x"
  unfolding linearPoint_def Let_def
  by (simp_all only: TimeSeriesPoint.simps clamp_not_negative not_False_eq_True
      clamp_finite_nonneg)

lemma fillForecast_sign:
  assumes "fillForecast n body = Inr forecast"
    and "\<And>i. \<not> Total (body i) < 0"
    and "\<And>i x. Total (body i) = Finite x \<Longrightarrow> 0 \<le> x"
  shows "\<forall>p \<in> set forecast. \<not> Total p < 0 \<and> (\<forall>x. Total p = Finite x \<longrightarrow> 0 \<le> x)"
  using assms by (auto simp: fillForecast_def split: if_splits)

lemma generateSimpleForecast_sign:
  assumes "generateSimpleForecast e request = Inr forecast"
  shows "\<forall>p \<in> set forecast. \<not> Total p < 0 \<and> (\<forall>x. Total p = Finite x \<longrightarrow> 0 \<le> x)"
proof (cases "length (filterToLast12Months (TimeSeriesData request)) < 2")
  case True
  with assms show ?thesis by (simp add: generateSimpleForecast_short)
next
  case False
  then have "2 \<le> length (filterToLast12Months (TimeSeriesData request))" by simp
  from generateSimpleForecast_long[OF this, of e] obtain a t where
    "generateSimpleForecast e request
       = fillForecast (PeriodsToForecast request)
           (seasonalPoint e (Period (last (filterToLast12Months (TimeSeriesData request))))
              (TimePeriod request) a t)
     \<or> generateSimpleForecast e request
       = fillForecast (PeriodsToForecast request)
           (linearPoint e (Period (last (filterToLast12Months (TimeSeriesData request))))
              (TimePeriod request) a t)"
    by blast
  then show ?thesis
  proof
    assume "generateSimpleForecast e request
       = fillForecast (PeriodsToForecast request)
           (seasonalPoint e (Period (last (filterToLast12Months (TimeSeriesData request))))
              (TimePeriod request) a t)"
    with assms have "fillForecast (PeriodsToForecast request)
           (seasonalPoint e (Period (last (filterToLast12Months (TimeSeriesData request))))
              (TimePeriod request) a t) = Inr forecast" by simp
    then show ?thesis
      by (rule fillForecast_sign) (rule seasonalPoint_Total, erule seasonalPoint_Total)
  next
    assume "generateSimpleForecast e request
       = fillForecast (PeriodsToForecast request)
           (linearPoint e (Period (last (filterToLast12Months (TimeSeriesData request))))
              (TimePeriod request) a t)"
    with assms have "fillForecast (PeriodsToForecast request)
           (linearPoint e (Period (last (filterToLast12Months (TimeSeriesData request))))
              (TimePeriod request) a t) = Inr forecast" by simp
    then show ?thesis
      by (rule fillForecast_sign) (rule linearPoint_Total, erule linearPoint_Total)
  qed
qed

lemma finite_nonneg_total:
  assumes "\<not> Total p < 0" and "isFinite (Total p)"
  shows "\<exists>x. Total p = Finite x \<and> 0 \<le> x"
  using assms by (cases "Total p") (simp_all add: float64_ops)

subsection \<open>C1: an invalid credential leads to the statistical fallback\<close>

text \<open>
  C1 (as amended). In \<^verbatim>\<open>services/sales_forecast.go\<close>, for a non-empty series and a
  credential that is absent, shorter than 10 bytes or without the prefix \<^verbatim>\<open>sk-\<close>, the
  orchestrator returns no error: it returns the forecast that \<^verbatim>\<open>generateSimpleForecast\<close>
  produces for the same series and granularity, with the same random source, and a raw
  diagnostic that names the fallback. The handler passes this response to \<^verbatim>\<open>c.JSON\<close>
  with status 200, so it answers 200 with it when every forecast total is finite. In
  \<^verbatim>\<open>internal/services/sales_forecast.go\<close> the orchestrator returns an error for every
  such credential and the handler answers 500.
\<close>

theorem C1_invalid_credential_falls_back:
  assumes "TimeSeriesData request \<noteq> []"
    and "apiKeyEnv e = '''' \<or> length (apiKeyEnv e) < 10 \<or> take 3 (apiKeyEnv e) \<noteq> ''sk-''"
    and "tp = (if TimePeriod request = '''' then ''month'' else TimePeriod request)"
  shows "\<exists>forecast reason.
           generateSimpleForecast e (createRequestForPeriod request tp) = Inr forecast
         \<and> generateForecastForPeriod e request tp = Inr (forecast, reason)
         \<and> reason \<in> {''Simple forecast generated (no API key)'',
                      ''Simple forecast generated (invalid API key)'',
                      ''Simple forecast generated (invalid API key format)''}
         \<and> GenerateSalesForecast e (Some request)
             = c_JSON 200 \<lparr>Forecast = forecast, ResponseTimePeriod = tp,
                 StatusMessage = ''Forecast generated successfully'', RawResponse = reason\<rparr>
         \<and> (list_all (\<lambda>p. isFinite (Total p)) forecast \<longrightarrow>
              GenerateSalesForecast e (Some request)
              = JSON 200 (ForecastBody \<lparr>Forecast = forecast, ResponseTimePeriod = tp,
                  StatusMessage = ''Forecast generated successfully'', RawResponse = reason\<rparr>))
         \<and> (\<exists>err. generateForecastForPeriod_internal e request tp = Inl (Error err))
         \<and> GenerateSalesForecast_internal e (Some request)
             = JSON 500 (ErrorBody ''Failed to generate forecast'')"
proof -
  from generateForecastForPeriod_invalid_key[OF assms(2), of request tp]
  obtain forecast reason where
    f: "generateSimpleForecast e (createRequestForPeriod request tp) = Inr forecast"
    and g: "generateForecastForPeriod e request tp = Inr (forecast, reason)"
    and r: "reason \<in> {''Simple forecast generated (no API key)'',
                      ''Simple forecast generated (invalid API key)'',
                      ''Simple forecast generated (invalid API key format)''}"
    by blast
  let ?response = "\<lparr>Forecast = forecast, ResponseTimePeriod = tp,
      StatusMessage = ''Forecast generated successfully'', RawResponse = reason\<rparr>"
  have h: "GenerateSalesForecast e (Some request) = c_JSON 200 ?response"
    using assms(1,3) g by (rule GenerateSalesForecast_answer)
  have j: "list_all (\<lambda>p. isFinite (Total p)) forecast \<longrightarrow>
      GenerateSalesForecast e (Some request) = JSON 200 (ForecastBody ?response)"
    unfolding h using c_JSON_finite[of ?response 200] by simp
  have i: "\<exists>err. generateForecastForPeriod_internal e request tp = Inl (Error err)"
    using assms(2) by (auto simp: generateForecastForPeriod_internal_def Let_def)
  then obtain err where "generateForecastForPeriod_internal e request tp = Inl (Error err)"
    by blast
  then have k: "GenerateSalesForecast_internal e (Some request)
      = JSON 500 (ErrorBody ''Failed to generate forecast'')"
    using assms(1) unfolding assms(3)
    by (simp add: GenerateSalesForecast_internal_def Let_def)
  from f g r h j i k show ?thesis by blast
qed

text \<open>
  The handler of \<^verbatim>\<open>internal/services/sales_forecast.go\<close> answers a request without
  credential with status 500: that file returns an error at each credential check.
\<close>

theorem C1_internal_variant_counterexample:
  "TimeSeriesData \<lparr>TimeSeriesData = twoMonths, TimePeriod = ''month'', PeriodsToForecast = 0\<rparr> \<noteq> []
   \<and> apiKeyEnv offlineEnv = ''''
   \<and> generateForecastForPeriod_internal offlineEnv
        \<lparr>TimeSeriesData = twoMonths, TimePeriod = ''month'', PeriodsToForecast = 0\<rparr> ''month''
      = Inl (Error ''no OpenAI API key found'')
   \<and> GenerateSalesForecast_internal offlineEnv
        (Some \<lparr>TimeSeriesData = twoMonths, TimePeriod = ''month'', PeriodsToForecast = 0\<rparr>)
      = JSON 500 (ErrorBody ''Failed to generate forecast'')"
  by (simp add: GenerateSalesForecast_internal_def generateForecastForPeriod_internal_def
      offlineEnv_def twoMonths_def)

theorem C1_invalid_credential_falls_back_witness:
  "TimeSeriesData \<lparr>TimeSeriesData = twoMonths, TimePeriod = ''month'', PeriodsToForecast = 0\<rparr> \<noteq> []
   \<and> apiKeyEnv offlineEnv = ''''
   \<and> (\<exists>reason.
         generateForecastForPeriod offlineEnv
           \<lparr>TimeSeriesData = twoMonths, TimePeriod = ''month'', PeriodsToForecast = 0\<rparr> ''month''
         = Inr ([\<lparr>Period = ''2024-03'', Total = Finite 10\<rparr>,
                 \<lparr>Period = ''2024-04'', Total = Finite 0\<rparr>,
                 \<lparr>Period = ''2024-05'', Total = Finite 0\<rparr>,
                 \<lparr>Period = ''2024-06'', Total = Finite 0\<rparr>,
                 \<lparr>Period = ''2024-07'', Total = Finite 0\<rparr>,
                 \<lparr>Period = ''2024-08'', Total = Finite 0\<rparr>], reason)
       \<and> reason \<in> {''Simple forecast generated (no API key)'',
                      ''Simple forecast generated (invalid API key)'',
                      ''Simple forecast generated (invalid API key format)''}
       \<and> GenerateSalesForecast offlineEnv
           (Some \<lparr>TimeSeriesData = twoMonths, TimePeriod = ''month'', PeriodsToForecast = 0\<rparr>)
         = JSON 200 (ForecastBody
             \<lparr>Forecast = [\<lparr>Period = ''2024-03'', Total = Finite 10\<rparr>,
                          \<lparr>Period = ''2024-04'', Total = Finite 0\<rparr>,
                          \<lparr>Period = ''2024-05'', Total = Finite 0\<rparr>,
                          \<lparr>Period = ''2024-06'', Total = Finite 0\<rparr>,
                          \<lparr>Period = ''2024-07'', Total = Finite 0\<rparr>,
                          \<lparr>Period = ''2024-08'', Total = Finite 0\<rparr>],
              ResponseTimePeriod = ''month'',
              StatusMessage = ''Forecast generated successfully'', RawResponse = reason\<rparr>))
   \<and> GenerateSalesForecast_internal offlineEnv
        (Some \<lparr>TimeSeriesData = twoMonths, TimePeriod = ''month'', PeriodsToForecast = 0\<rparr>)
      = JSON 500 (ErrorBody ''Failed to generate forecast'')"
proof -
  let ?r = "\<lparr>TimeSeriesData = twoMonths, TimePeriod = ''month'', PeriodsToForecast = 0\<rparr>"
  let ?F = "[\<lparr>Period = ''2024-03'', Total = Finite 10\<rparr>, \<lparr>Period = ''2024-04'', Total = Finite 0\<rparr>,
             \<lparr>Period = ''2024-05'', Total = Finite 0\<rparr>, \<lparr>Period = ''2024-06'', Total = Finite 0\<rparr>,
             \<lparr>Period = ''2024-07'', Total = Finite 0\<rparr>, \<lparr>Period = ''2024-08'', Total = Finite 0\<rparr>]"
  have a: "TimeSeriesData ?r \<noteq> []" by (simp add: twoMonths_def)
  have k: "apiKeyEnv offlineEnv = ''''" by (simp add: offlineEnv_def)
  then have b: "apiKeyEnv offlineEnv = '''' \<or> length (apiKeyEnv offlineEnv) < 10
      \<or> take 3 (apiKeyEnv offlineEnv) \<noteq> ''sk-''" by simp
  have c: "''month'' = (if TimePeriod ?r = '''' then ''month'' else TimePeriod ?r)" by simp
  have fin: "list_all (\<lambda>p. isFinite (Total p)) ?F" by simp
  from C1_invalid_credential_falls_back[OF a b c]
  obtain forecast reason where
    f: "generateSimpleForecast offlineEnv (createRequestForPeriod ?r ''month'') = Inr forecast"
    and g: "generateForecastForPeriod offlineEnv ?r ''month'' = Inr (forecast, reason)"
    and r: "reason \<in> {''Simple forecast generated (no API key)'',
                      ''Simple forecast generated (invalid API key)'',
                      ''Simple forecast generated (invalid API key format)''}"
    and j: "list_all (\<lambda>p. isFinite (Total p)) forecast \<longrightarrow>
        GenerateSalesForecast offlineEnv (Some ?r)
        = JSON 200 (ForecastBody \<lparr>Forecast = forecast, ResponseTimePeriod = ''month'',
            StatusMessage = ''Forecast generated successfully'', RawResponse = reason\<rparr>)"
    and i: "GenerateSalesForecast_internal offlineEnv (Some ?r)
        = JSON 500 (ErrorBody ''Failed to generate forecast'')"
    by blast
  from f have F: "forecast = ?F"
    unfolding generateSimpleForecast_twoMonths by simp
  from g r j i fin a k show ?thesis
    unfolding F by blast
qed

subsection \<open>C9: an empty granularity means month\<close>

text \<open>
  C9. For a request with a non-empty series whose \<^verbatim>\<open>TimePeriod\<close> is empty, the handler
  answers exactly as for the same request with \<^verbatim>\<open>TimePeriod\<close> set to \<^verbatim>\<open>"month"\<close>: it
  passes to \<^verbatim>\<open>c.JSON\<close> the forecast and the raw text that \<^verbatim>\<open>generateForecastForPeriod\<close>
  returns for the granularity \<^verbatim>\<open>"month"\<close> (the estimator's forecast for \<^verbatim>\<open>"month"\<close> or the
  one parsed from the provider's reply to the prompt for \<^verbatim>\<open>"month"\<close>), in a response that
  names the granularity \<^verbatim>\<open>"month"\<close>. The handler of
  \<^verbatim>\<open>internal/services/sales_forecast.go\<close> treats the two requests alike as well and
  runs its orchestrator for \<^verbatim>\<open>"month"\<close>.
\<close>

theorem C9_empty_period_is_month:
  assumes "TimeSeriesData request \<noteq> []" and "TimePeriod request = ''''"
  shows "GenerateSalesForecast e (Some request)
           = GenerateSalesForecast e (Some (request\<lparr>TimePeriod := ''month''\<rparr>))
       \<and> (\<exists>forecast raw.
             generateForecastForPeriod e request ''month'' = Inr (forecast, raw)
           \<and> (generateSimpleForecast e (createRequestForPeriod request ''month'') = Inr forecast
              \<or> (\<exists>reply.
                    sendChatGPTRequest e (apiKeyEnv e)
                      (chatGPTRequestFor (buildForecastPromptForPeriod e request ''month''))
                    = Inr reply
                  \<and> parseSinglePeriodChatGPTResponse e reply = Inr (forecast, raw)))
           \<and> GenerateSalesForecast e (Some request)
               = c_JSON 200 \<lparr>Forecast = forecast, ResponseTimePeriod = ''month'',
                   StatusMessage = ''Forecast generated successfully'', RawResponse = raw\<rparr>)
       \<and> (\<forall>code response.
             GenerateSalesForecast e (Some request) = JSON code (ForecastBody response) \<longrightarrow>
             code = 200 \<and> ResponseTimePeriod response = ''month'')
       \<and> GenerateSalesForecast_internal e (Some request)
           = GenerateSalesForecast_internal e (Some (request\<lparr>TimePeriod := ''month''\<rparr>))
       \<and> GenerateSalesForecast_internal e (Some request)
           = (case generateForecastForPeriod_internal e request ''month'' of
                Inl (Error err) \<Rightarrow> JSON 500 (ErrorBody ''Failed to generate forecast'')
              | Inl (Panic p) \<Rightarrow> Panicked p
              | Inr (forecast, raw) \<Rightarrow>
                  c_JSON 200 \<lparr>Forecast = forecast, ResponseTimePeriod = ''month'',
                    StatusMessage = ''Forecast generated successfully'', RawResponse = raw\<rparr>)"
proof -
  have p: "buildForecastPromptForPeriod e (request\<lparr>TimePeriod := ''month''\<rparr>) tp
      = buildForecastPromptForPeriod e request tp" for tp
    by (simp add: buildForecastPromptForPeriod_def)
  have c: "createRequestForPeriod (request\<lparr>TimePeriod := ''month''\<rparr>) tp
      = createRequestForPeriod request tp" for tp
    by (simp add: createRequestForPeriod_def)
  have g: "generateForecastForPeriod e (request\<lparr>TimePeriod := ''month''\<rparr>) tp
      = generateForecastForPeriod e request tp" for tp
    unfolding generateForecastForPeriod_def returnSimpleForecast_def p c by (rule refl)
  have gi: "generateForecastForPeriod_internal e (request\<lparr>TimePeriod := ''month''\<rparr>) tp
      = generateForecastForPeriod_internal e request tp" for tp
    unfolding generateForecastForPeriod_internal_def p by (rule refl)
  have 1: "GenerateSalesForecast e (Some request)
           = GenerateSalesForecast e (Some (request\<lparr>TimePeriod := ''month''\<rparr>))"
    using assms(2)
    by (simp add: GenerateSalesForecast_def Let_def g c cong: sum.case_cong failure.case_cong)
  have 4: "GenerateSalesForecast_internal e (Some request)
           = GenerateSalesForecast_internal e (Some (request\<lparr>TimePeriod := ''month''\<rparr>))"
    using assms(2)
    by (simp add: GenerateSalesForecast_internal_def Let_def gi
        cong: sum.case_cong failure.case_cong)
  have m: "''month'' = (if TimePeriod request = '''' then ''month'' else TimePeriod request)"
    using assms(2) by simp
  from generateForecastForPeriod_total[of e request "''month''"]
  obtain forecast raw where
    t: "generateForecastForPeriod e request ''month'' = Inr (forecast, raw)"
    and o: "generateSimpleForecast e (createRequestForPeriod request ''month'') = Inr forecast
        \<or> (\<exists>reply.
              sendChatGPTRequest e (apiKeyEnv e)
                (chatGPTRequestFor (buildForecastPromptForPeriod e request ''month''))
              = Inr reply
            \<and> parseSinglePeriodChatGPTResponse e reply = Inr (forecast, raw))"
    by blast
  have h: "GenerateSalesForecast e (Some request)
      = c_JSON 200 \<lparr>Forecast = forecast, ResponseTimePeriod = ''month'',
          StatusMessage = ''Forecast generated successfully'', RawResponse = raw\<rparr>"
    using assms(1) m t by (rule GenerateSalesForecast_answer)
  have 3: "\<forall>code response.
      GenerateSalesForecast e (Some request) = JSON code (ForecastBody response) \<longrightarrow>
      code = 200 \<and> ResponseTimePeriod response = ''month''"
    unfolding h using c_JSON_answered by fastforce
  have 5: "GenerateSalesForecast_internal e (Some request)
           = (case generateForecastForPeriod_internal e request ''month'' of
                Inl (Error err) \<Rightarrow> JSON 500 (ErrorBody ''Failed to generate forecast'')
              | Inl (Panic p) \<Rightarrow> Panicked p
              | Inr (forecast, raw) \<Rightarrow>
                  c_JSON 200 \<lparr>Forecast = forecast, ResponseTimePeriod = ''month'',
                    StatusMessage = ''Forecast generated successfully'', RawResponse = raw\<rparr>)"
    using assms
    by (simp add: GenerateSalesForecast_internal_def Let_def
        split: sum.splits failure.splits prod.splits)
  from 1 t o h 3 4 5 show ?thesis by blast
qed

theorem C9_empty_period_is_month_witness:
  "TimeSeriesData \<lparr>TimeSeriesData = twoMonths, TimePeriod = '''', PeriodsToForecast = 0\<rparr> \<noteq> []
   \<and> TimePeriod \<lparr>TimeSeriesData = twoMonths, TimePeriod = '''', PeriodsToForecast = 0\<rparr> = ''''
   \<and> GenerateSalesForecast offlineEnv
        (Some \<lparr>TimeSeriesData = twoMonths, TimePeriod = '''', PeriodsToForecast = 0\<rparr>)
      = GenerateSalesForecast offlineEnv
        (Some (\<lparr>TimeSeriesData = twoMonths, TimePeriod = '''', PeriodsToForecast = 0\<rparr>
                 \<lparr>TimePeriod := ''month''\<rparr>))
   \<and> GenerateSalesForecast offlineEnv
        (Some \<lparr>TimeSeriesData = twoMonths, TimePeriod = '''', PeriodsToForecast = 0\<rparr>)
      = JSON 200 (ForecastBody
          \<lparr>Forecast = [\<lparr>Period = ''2024-03'', Total = Finite 10\<rparr>,
                       \<lparr>Period = ''2024-04'', Total = Finite 0\<rparr>,
                       \<lparr>Period = ''2024-05'', Total = Finite 0\<rparr>,
                       \<lparr>Period = ''2024-06'', Total = Finite 0\<rparr>,
                       \<lparr>Period = ''2024-07'', Total = Finite 0\<rparr>,
                       \<lparr>Period = ''2024-08'', Total = Finite 0\<rparr>],
           ResponseTimePeriod = ''month'',
           StatusMessage = ''Forecast generated successfully'',
           RawResponse = ''Simple forecast generated (no API key)''\<rparr>)
   \<and> GenerateSalesForecast_internal offlineEnv
        (Some \<lparr>TimeSeriesData = twoMonths, TimePeriod = '''', PeriodsToForecast = 0\<rparr>)
      = JSON 500 (ErrorBody ''Failed to generate forecast'')"
proof -
  let ?r = "\<lparr>TimeSeriesData = twoMonths, TimePeriod = '''', PeriodsToForecast = 0\<rparr>"
  let ?m = "\<lparr>TimeSeriesData = twoMonths, TimePeriod = ''month'', PeriodsToForecast = 0\<rparr>"
  let ?F = "[\<lparr>Period = ''2024-03'', Total = Finite 10\<rparr>, \<lparr>Period = ''2024-04'', Total = Finite 0\<rparr>,
             \<lparr>Period = ''2024-05'', Total = Finite 0\<rparr>, \<lparr>Period = ''2024-06'', Total = Finite 0\<rparr>,
             \<lparr>Period = ''2024-07'', Total = Finite 0\<rparr>, \<lparr>Period = ''2024-08'', Total = Finite 0\<rparr>]"
  have a: "TimeSeriesData ?r \<noteq> []" by (simp add: twoMonths_def)
  have b: "TimePeriod ?r = ''''" by simp
  have cr: "createRequestForPeriod ?r ''month'' = createRequestForPeriod ?m ''month''"
    by (simp add: createRequestForPeriod_def)
  have s: "generateSimpleForecast offlineEnv (createRequestForPeriod ?r ''month'') = Inr ?F"
    unfolding cr by (rule generateSimpleForecast_twoMonths)
  have g: "generateForecastForPeriod offlineEnv ?r ''month''
      = Inr (?F, ''Simple forecast generated (no API key)'')"
    by (simp add: generateForecastForPeriod_def returnSimpleForecast_def s offlineEnv_key)
  have gi: "generateForecastForPeriod_internal offlineEnv ?r ''month''
      = Inl (Error ''no OpenAI API key found'')"
    by (simp add: generateForecastForPeriod_internal_def offlineEnv_key)
  have fin: "c_JSON 200 \<lparr>Forecast = ?F, ResponseTimePeriod = ''month'',
          StatusMessage = ''Forecast generated successfully'',
          RawResponse = ''Simple forecast generated (no API key)''\<rparr>
      = JSON 200 (ForecastBody \<lparr>Forecast = ?F, ResponseTimePeriod = ''month'',
          StatusMessage = ''Forecast generated successfully'',
          RawResponse = ''Simple forecast generated (no API key)''\<rparr>)"
    by (rule c_JSON_finite) simp
  from C9_empty_period_is_month[OF a b, of offlineEnv]
  have 1: "GenerateSalesForecast offlineEnv (Some ?r)
      = GenerateSalesForecast offlineEnv (Some (?r\<lparr>TimePeriod := ''month''\<rparr>))"
    and 2: "\<exists>forecast raw.
        generateForecastForPeriod offlineEnv ?r ''month'' = Inr (forecast, raw)
      \<and> GenerateSalesForecast offlineEnv (Some ?r)
          = c_JSON 200 \<lparr>Forecast = forecast, ResponseTimePeriod = ''month'',
              StatusMessage = ''Forecast generated successfully'', RawResponse = raw\<rparr>"
    and 3: "GenerateSalesForecast_internal offlineEnv (Some ?r)
      = (case generateForecastForPeriod_internal offlineEnv ?r ''month'' of
           Inl (Error err) \<Rightarrow> JSON 500 (ErrorBody ''Failed to generate forecast'')
         | Inl (Panic p) \<Rightarrow> Panicked p
         | Inr (forecast, raw) \<Rightarrow>
             c_JSON 200 \<lparr>Forecast = forecast, ResponseTimePeriod = ''month'',
               StatusMessage = ''Forecast generated successfully'', RawResponse = raw\<rparr>)"
    by blast+
  from 2 have 2: "GenerateSalesForecast offlineEnv (Some ?r)
      = JSON 200 (ForecastBody \<lparr>Forecast = ?F, ResponseTimePeriod = ''month'',
          StatusMessage = ''Forecast generated successfully'',
          RawResponse = ''Simple forecast generated (no API key)''\<rparr>)"
    unfolding g fin[symmetric] by simp
  from 3 have 3: "GenerateSalesForecast_internal offlineEnv (Some ?r)
      = JSON 500 (ErrorBody ''Failed to generate forecast'')"
    unfolding gi by simp
  from a b 1 2 3 show ?thesis by (intro conjI)
qed

subsection \<open>C2: how many points the fallback returns\<close>

text \<open>
  C2 (as amended). The estimator, as the orchestrator invokes it, returns
  \<^verbatim>\<open>getForecastPeriods\<close> points (at least four) when the last-12-months filtered form
  of the series has at least two points, and the empty list when the filtered form has
  fewer than two, in particular when the series itself has fewer than two. For every
  non-empty series the orchestrator returns, without error, a forecast that is either the
  estimator's or the one parsed from the provider's reply, and the handler passes it to
  \<^verbatim>\<open>c.JSON\<close> with status 200, so it answers 200 with it when every forecast total is
  finite; for the empty series the handler answers 400.
\<close>

theorem C2_fallback_point_count:
  "(2 \<le> length (filterToLast12Months (TimeSeriesData request)) \<longrightarrow>
      (\<exists>forecast. generateSimpleForecast e (createRequestForPeriod request tp) = Inr forecast
         \<and> length forecast = nat (getForecastPeriods tp) \<and> 4 \<le> length forecast))
   \<and> (length (filterToLast12Months (TimeSeriesData request)) < 2 \<longrightarrow>
      generateSimpleForecast e (createRequestForPeriod request tp) = Inr [])
   \<and> (length (TimeSeriesData request) < 2 \<longrightarrow>
      generateSimpleForecast e (createRequestForPeriod request tp) = Inr [])
   \<and> (TimeSeriesData request \<noteq> [] \<longrightarrow>
      (let timePeriod = (if TimePeriod request = '''' then ''month'' else TimePeriod request)
       in \<exists>forecast raw.
            generateForecastForPeriod e request timePeriod = Inr (forecast, raw)
          \<and> (generateSimpleForecast e (createRequestForPeriod request timePeriod) = Inr forecast
             \<or> (\<exists>reply.
                   sendChatGPTRequest e (apiKeyEnv e)
                     (chatGPTRequestFor (buildForecastPromptForPeriod e request timePeriod))
                   = Inr reply
                 \<and> parseSinglePeriodChatGPTResponse e reply = Inr (forecast, raw)))
          \<and> GenerateSalesForecast e (Some request)
              = c_JSON 200 \<lparr>Forecast = forecast, ResponseTimePeriod = timePeriod,
                  StatusMessage = ''Forecast generated successfully'', RawResponse = raw\<rparr>
          \<and> (list_all (\<lambda>p. isFinite (Total p)) forecast \<longrightarrow>
               GenerateSalesForecast e (Some request)
               = JSON 200 (ForecastBody
                   \<lparr>Forecast = forecast, ResponseTimePeriod = timePeriod,
                    StatusMessage = ''Forecast generated successfully'',
                    RawResponse = raw\<rparr>))))
   \<and> (TimeSeriesData request = [] \<longrightarrow>
      GenerateSalesForecast e (Some request)
        = JSON 400 (ErrorBody ''No time series data provided''))"
proof (intro conjI impI)
  assume h: "2 \<le> length (filterToLast12Months (TimeSeriesData request))"
  from generateSimpleForecast_create[of e request tp] h getForecastPeriods_pos[of tp]
  show "\<exists>forecast. generateSimpleForecast e (createRequestForPeriod request tp) = Inr forecast
         \<and> length forecast = nat (getForecastPeriods tp) \<and> 4 \<le> length forecast"
    by auto
next
  assume "length (filterToLast12Months (TimeSeriesData request)) < 2"
  then show "generateSimpleForecast e (createRequestForPeriod request tp) = Inr []"
    by (simp add: generateSimpleForecast_short createRequestForPeriod_fields)
next
  assume "length (TimeSeriesData request) < 2"
  with filterToLast12Months_length[of "TimeSeriesData request"]
  have "length (filterToLast12Months (TimeSeriesData request)) < 2" by simp
  then show "generateSimpleForecast e (createRequestForPeriod request tp) = Inr []"
    by (simp add: generateSimpleForecast_short createRequestForPeriod_fields)
next
  assume ne: "TimeSeriesData request \<noteq> []"
  define timePeriod where
    "timePeriod = (if TimePeriod request = '''' then ''month'' else TimePeriod request)"
  from generateForecastForPeriod_total[of e request timePeriod]
  obtain forecast raw where
    t: "generateForecastForPeriod e request timePeriod = Inr (forecast, raw)"
    and o: "generateSimpleForecast e (createRequestForPeriod request timePeriod) = Inr forecast
        \<or> (\<exists>reply.
              sendChatGPTRequest e (apiKeyEnv e)
                (chatGPTRequestFor (buildForecastPromptForPeriod e request timePeriod))
              = Inr reply
            \<and> parseSinglePeriodChatGPTResponse e reply = Inr (forecast, raw))"
    by blast
  let ?response = "\<lparr>Forecast = forecast, ResponseTimePeriod = timePeriod,
      StatusMessage = ''Forecast generated successfully'', RawResponse = raw\<rparr>"
  have h: "GenerateSalesForecast e (Some request) = c_JSON 200 ?response"
    using ne timePeriod_def t by (rule GenerateSalesForecast_answer)
  have j: "list_all (\<lambda>p. isFinite (Total p)) forecast \<longrightarrow>
      GenerateSalesForecast e (Some request) = JSON 200 (ForecastBody ?response)"
    unfolding h using c_JSON_finite[of ?response 200] by simp
  from t o h j
  show "let timePeriod = (if TimePeriod request = '''' then ''month'' else TimePeriod request)
       in \<exists>forecast raw.
            generateForecastForPeriod e request timePeriod = Inr (forecast, raw)
          \<and> (generateSimpleForecast e (createRequestForPeriod request timePeriod) = Inr forecast
             \<or> (\<exists>reply.
                   sendChatGPTRequest e (apiKeyEnv e)
                     (chatGPTRequestFor (buildForecastPromptForPeriod e request timePeriod))
                   = Inr reply
                 \<and> parseSinglePeriodChatGPTResponse e reply = Inr (forecast, raw)))
          \<and> GenerateSalesForecast e (Some request)
              = c_JSON 200 \<lparr>Forecast = forecast, ResponseTimePeriod = timePeriod,
                  StatusMessage = ''Forecast generated successfully'', RawResponse = raw\<rparr>
          \<and> (list_all (\<lambda>p. isFinite (Total p)) forecast \<longrightarrow>
               GenerateSalesForecast e (Some request)
               = JSON 200 (ForecastBody
                   \<lparr>Forecast = forecast, ResponseTimePeriod = timePeriod,
                    StatusMessage = ''Forecast generated successfully'',
                    RawResponse = raw\<rparr>))"
    unfolding Let_def timePeriod_def[symmetric] by blast
next
  assume "TimeSeriesData request = []"
  then show "GenerateSalesForecast e (Some request)
        = JSON 400 (ErrorBody ''No time series data provided'')"
    by (rule GenerateSalesForecast_empty)
qed

text \<open>
  A series of two monthly points more than twelve months apart: the filter keeps only the
  later one and the handler answers 200 with an empty forecast. The empty series is
  answered with status 400.
\<close>

theorem C2_sparse_series_counterexample:
  "length sparseMonths = 2
   \<and> GenerateSalesForecast offlineEnv
        (Some \<lparr>TimeSeriesData = sparseMonths, TimePeriod = ''month'', PeriodsToForecast = 0\<rparr>)
      = JSON 200 (ForecastBody
          \<lparr>Forecast = [], ResponseTimePeriod = ''month'',
           StatusMessage = ''Forecast generated successfully'',
           RawResponse = ''Simple forecast generated (no API key)''\<rparr>)
   \<and> length ([] :: TimeSeriesPoint list) < 2
   \<and> GenerateSalesForecast offlineEnv
        (Some \<lparr>TimeSeriesData = [], TimePeriod = ''month'', PeriodsToForecast = 0\<rparr>)
      = JSON 400 (ErrorBody ''No time series data provided'')"
proof -
  have s: "generateSimpleForecast offlineEnv
      (createRequestForPeriod
         \<lparr>TimeSeriesData = sparseMonths, TimePeriod = ''month'', PeriodsToForecast = 0\<rparr>
         ''month'') = Inr []"
    by (rule generateSimpleForecast_short)
      (simp add: createRequestForPeriod_fields filter_sparseMonths)
  have g: "generateForecastForPeriod offlineEnv
      \<lparr>TimeSeriesData = sparseMonths, TimePeriod = ''month'', PeriodsToForecast = 0\<rparr> ''month''
      = Inr ([], ''Simple forecast generated (no API key)'')"
    by (simp add: generateForecastForPeriod_def returnSimpleForecast_def s offlineEnv_key)
  have 1: "length sparseMonths = 2" by (simp add: sparseMonths_def)
  have ne: "sparseMonths \<noteq> []" by (simp add: sparseMonths_def)
  show ?thesis
    by (simp add: GenerateSalesForecast_def g 1 ne c_JSON_def)
qed

theorem C2_fallback_point_count_witness:
  "2 \<le> length (filterToLast12Months twoMonths)
   \<and> (\<exists>forecast.
         generateSimpleForecast offlineEnv
           (createRequestForPeriod
              \<lparr>TimeSeriesData = twoMonths, TimePeriod = ''month'', PeriodsToForecast = 0\<rparr>
              ''month'') = Inr forecast
       \<and> length forecast = nat (getForecastPeriods ''month'') \<and> 4 \<le> length forecast)
   \<and> twoMonths \<noteq> []
   \<and> (\<exists>forecast raw.
         generateForecastForPeriod offlineEnv
           \<lparr>TimeSeriesData = twoMonths, TimePeriod = ''month'', PeriodsToForecast = 0\<rparr> ''month''
         = Inr (forecast, raw)
       \<and> GenerateSalesForecast offlineEnv
           (Some \<lparr>TimeSeriesData = twoMonths, TimePeriod = ''month'', PeriodsToForecast = 0\<rparr>)
         = c_JSON 200 \<lparr>Forecast = forecast, ResponseTimePeriod = ''month'',
             StatusMessage = ''Forecast generated successfully'', RawResponse = raw\<rparr>)
   \<and> length (filterToLast12Months sparseMonths) < 2
   \<and> generateSimpleForecast offlineEnv
         (createRequestForPeriod
            \<lparr>TimeSeriesData = sparseMonths, TimePeriod = ''month'', PeriodsToForecast = 0\<rparr>
            ''month'') = Inr []
   \<and> length [\<lparr>Period = ''2024-01'', Total = Finite 100\<rparr>] < 2
   \<and> generateSimpleForecast offlineEnv
         (createRequestForPeriod
            \<lparr>TimeSeriesData = [\<lparr>Period = ''2024-01'', Total = Finite 100\<rparr>],
             TimePeriod = ''month'', PeriodsToForecast = 0\<rparr>
            ''month'') = Inr []
   \<and> GenerateSalesForecast offlineEnv
         (Some \<lparr>TimeSeriesData = [], TimePeriod = ''month'', PeriodsToForecast = 0\<rparr>)
       = JSON 400 (ErrorBody ''No time series data provided'')"
proof -
  let ?r1 = "\<lparr>TimeSeriesData = twoMonths, TimePeriod = ''month'', PeriodsToForecast = 0\<rparr>"
  let ?r2 = "\<lparr>TimeSeriesData = sparseMonths, TimePeriod = ''month'', PeriodsToForecast = 0\<rparr>"
  let ?r3 = "\<lparr>TimeSeriesData = [\<lparr>Period = ''2024-01'', Total = Finite 100\<rparr>],
             TimePeriod = ''month'', PeriodsToForecast = 0\<rparr>"
  let ?r4 = "\<lparr>TimeSeriesData = [], TimePeriod = ''month'', PeriodsToForecast = (0::int)\<rparr>"
  have h1: "2 \<le> length (filterToLast12Months twoMonths)"
    by (simp add: filter_twoMonths) (simp add: twoMonths_def)
  have h2: "twoMonths \<noteq> []" by (simp add: twoMonths_def)
  have h3: "length (filterToLast12Months sparseMonths) < 2"
    by (simp add: filter_sparseMonths)
  have h4: "length [\<lparr>Period = ''2024-01'', Total = Finite 100\<rparr>] < 2" by simp
  from C2_fallback_point_count[of ?r1 offlineEnv "''month''"] h1 h2
  have a: "\<exists>forecast.
         generateSimpleForecast offlineEnv (createRequestForPeriod ?r1 ''month'') = Inr forecast
       \<and> length forecast = nat (getForecastPeriods ''month'') \<and> 4 \<le> length forecast"
    and b: "\<exists>forecast raw.
         generateForecastForPeriod offlineEnv ?r1 ''month'' = Inr (forecast, raw)
       \<and> GenerateSalesForecast offlineEnv (Some ?r1)
         = c_JSON 200 \<lparr>Forecast = forecast, ResponseTimePeriod = ''month'',
             StatusMessage = ''Forecast generated successfully'', RawResponse = raw\<rparr>"
    unfolding Let_def by (simp, simp, blast)
  from C2_fallback_point_count[of ?r2 offlineEnv "''month''"] h3
  have c: "generateSimpleForecast offlineEnv (createRequestForPeriod ?r2 ''month'') = Inr []"
    by simp
  from C2_fallback_point_count[of ?r3 offlineEnv "''month''"] h4
  have d: "generateSimpleForecast offlineEnv (createRequestForPeriod ?r3 ''month'') = Inr []"
    by simp
  from C2_fallback_point_count[of ?r4 offlineEnv "''month''"]
  have f: "GenerateSalesForecast offlineEnv (Some ?r4)
       = JSON 400 (ErrorBody ''No time series data provided'')"
    by simp
  from h1 a h2 b h3 c h4 d f show ?thesis by (intro conjI)
qed

subsection \<open>C5: when the plain linear branch is taken\<close>

text \<open>
  C5 (as amended). Let \<open>fd\<close> be the last-12-months filtered series. The older head is
  empty exactly when \<open>fd\<close> has two or three points (the window is then the whole
  series), and then the estimator extrapolates linearly with the trend
  \<open>(avg - first) / (len - 1)\<close>, without seasonal or random factor. With four or
  more points it multiplies trend, seasonal factor and random factor. With fewer than
  two points it returns the empty list. The sums run from 0 through the values from left
  to right, in \<^verbatim>\<open>float64\<close> arithmetic; a value below 0 is replaced by 0.
\<close>

theorem C5_linear_branch_up_to_three_points:
  assumes fd: "fd = filterToLast12Months (TimeSeriesData request)"
    and vals: "vals = map Total fd"
    and avgAll: "avgAll = foldl (+) 0 vals / float64OfInt (int (length vals))"
    and avgRecent: "avgRecent = foldl (+) 0 (drop (length vals - 3) vals) / float64OfInt 3"
    and avgOlder: "avgOlder = foldl (+) 0 (take (length vals - 3) vals)
                     / float64OfInt (int (length vals - 3))"
  shows "(length fd = 2 \<or> length fd = 3 \<longrightarrow>
           generateSimpleForecast e request
           = fillForecast (PeriodsToForecast request)
               (\<lambda>i. \<lparr>Period = generateNextPeriod (timeNow e) (Period (last fd))
                                (TimePeriod request) (int i + 1),
                      Total =
                        (let v = avgAll
                           + (avgAll - hd vals) / float64OfInt (int (length vals) - 1)
                             * float64OfInt (int i + 1)
                         in if v < 0 then 0 else v)\<rparr>))
       \<and> (4 \<le> length fd \<longrightarrow>
           generateSimpleForecast e request
           = fillForecast (PeriodsToForecast request)
               (\<lambda>i. \<lparr>Period = generateNextPeriod (timeNow e) (Period (last fd))
                                (TimePeriod request) (int i + 1),
                      Total =
                        (let v = (avgRecent
                             + (avgRecent - avgOlder) / float64OfInt 3 * float64OfInt (int i + 1))
                           * (1 + Finite 0.1 * math_Sin (float64OfInt (int i) * math_Pi / Finite 6))
                           * (1 + (randFloat64 e i - Finite 0.5) * Finite 0.05 * Finite 2)
                         in if v < 0 then 0 else v)\<rparr>))
       \<and> (length fd < 2 \<longrightarrow> generateSimpleForecast e request = Inr [])"
proof (intro conjI impI)
  assume n: "length fd = 2 \<or> length fd = 3"
  then have ne: "fd \<noteq> []" by auto
  have lastp: "fd ! (length fd - 1) = last fd" using ne by (simp add: last_conv_nth)
  have hd0: "map Total fd ! 0 = hd (map Total fd)" using ne by (simp add: hd_conv_nth)
  show "generateSimpleForecast e request
           = fillForecast (PeriodsToForecast request)
               (\<lambda>i. \<lparr>Period = generateNextPeriod (timeNow e) (Period (last fd))
                                (TimePeriod request) (int i + 1),
                      Total =
                        (let v = avgAll
                           + (avgAll - hd vals) / float64OfInt (int (length vals) - 1)
                             * float64OfInt (int i + 1)
                         in if v < 0 then 0 else v)\<rparr>)"
    unfolding generateSimpleForecast_few[OF fd n] linearForecast_def Let_def linearPoint_def
      lastp hd0 sumValues_def avgAll vals length_map
    by (rule refl)
next
  assume n: "4 \<le> length fd"
  then have ne: "fd \<noteq> []" by auto
  have lastp: "fd ! (length fd - 1) = last fd" using ne by (simp add: last_conv_nth)
  have len: "length (take (length fd - 3) (map Total fd)) = length fd - 3" by simp
  show "generateSimpleForecast e request
           = fillForecast (PeriodsToForecast request)
               (\<lambda>i. \<lparr>Period = generateNextPeriod (timeNow e) (Period (last fd))
                                (TimePeriod request) (int i + 1),
                      Total =
                        (let v = (avgRecent
                             + (avgRecent - avgOlder) / float64OfInt 3 * float64OfInt (int i + 1))
                           * (1 + Finite 0.1 * math_Sin (float64OfInt (int i) * math_Pi / Finite 6))
                           * (1 + (randFloat64 e i - Finite 0.5) * Finite 0.05 * Finite 2)
                         in if v < 0 then 0 else v)\<rparr>)"
    unfolding generateSimpleForecast_many[OF fd n] trendSeasonalForecast_def Let_def
      seasonalPoint_def lastp sumValues_def avgRecent avgOlder vals len length_map
      of_nat_numeral
    by (rule refl)
next
  assume "length fd < 2"
  then show "generateSimpleForecast e request = Inr []"
    unfolding fd by (rule generateSimpleForecast_short)
qed

text \<open>
  A series of three monthly points (100, 110, 120) is forecast as 115, 120, ..., 140: the
  plain linear extrapolation, although the series has three points and a window of three.
\<close>

theorem C5_three_points_counterexample:
  "length (filterToLast12Months threeMonths) = 3
   \<and> generateSimpleForecast offlineEnv
        \<lparr>TimeSeriesData = threeMonths, TimePeriod = ''month'', PeriodsToForecast = 6\<rparr>
      = Inr [\<lparr>Period = ''2024-04'', Total = Finite 115\<rparr>, \<lparr>Period = ''2024-05'', Total = Finite 120\<rparr>,
             \<lparr>Period = ''2024-06'', Total = Finite 125\<rparr>, \<lparr>Period = ''2024-07'', Total = Finite 130\<rparr>,
             \<lparr>Period = ''2024-08'', Total = Finite 135\<rparr>, \<lparr>Period = ''2024-09'', Total = Finite 140\<rparr>]"
proof -
  let ?r = "\<lparr>TimeSeriesData = threeMonths, TimePeriod = ''month'', PeriodsToForecast = 6\<rparr>"
  have fd: "threeMonths = filterToLast12Months (TimeSeriesData ?r)"
    by (simp add: filter_threeMonths)
  have n: "length threeMonths = 2 \<or> length threeMonths = 3"
    by (simp add: threeMonths_def)
  have avg: "sumValues (map Total threeMonths) / float64OfInt (int (length threeMonths))
      = Finite 110"
    by (simp add: sumValues_def threeMonths_def float64_eval)
  have "generateSimpleForecast offlineEnv ?r
      = linearForecast offlineEnv ?r threeMonths (Finite 110) (map Total threeMonths)"
    using generateSimpleForecast_few[OF fd n, of offlineEnv] unfolding avg .
  also have "\<dots> = Inr [\<lparr>Period = ''2024-04'', Total = Finite 115\<rparr>,
             \<lparr>Period = ''2024-05'', Total = Finite 120\<rparr>,
             \<lparr>Period = ''2024-06'', Total = Finite 125\<rparr>, \<lparr>Period = ''2024-07'', Total = Finite 130\<rparr>,
             \<lparr>Period = ''2024-08'', Total = Finite 135\<rparr>, \<lparr>Period = ''2024-09'', Total = Finite 140\<rparr>]"
    by (simp add: linearForecast_def fillForecast_6 linearPoint_def threeMonths_def
        months_after_2024_03 float64_eval)
  finally show ?thesis by (simp add: filter_threeMonths) (simp add: threeMonths_def)
qed

theorem C5_linear_branch_up_to_three_points_witness:
  "length (filterToLast12Months threeMonths) = 3
   \<and> generateSimpleForecast offlineEnv
        \<lparr>TimeSeriesData = threeMonths, TimePeriod = ''month'', PeriodsToForecast = 6\<rparr>
      = fillForecast 6
          (\<lambda>i. \<lparr>Period = generateNextPeriod 20759 ''2024-03'' ''month'' (int i + 1),
                 Total =
                   (let v = Finite 110
                      + (Finite 110 - Finite 100) / float64OfInt 2 * float64OfInt (int i + 1)
                    in if v < 0 then 0 else v)\<rparr>)
   \<and> 4 \<le> length (filterToLast12Months fourMonths)
   \<and> generateSimpleForecast offlineEnv
        \<lparr>TimeSeriesData = fourMonths, TimePeriod = ''month'', PeriodsToForecast = 6\<rparr>
      = fillForecast 6
          (\<lambda>i. \<lparr>Period = generateNextPeriod 20759 ''2024-04'' ''month'' (int i + 1),
                 Total =
                   (let v = (Finite 120
                        + (Finite 120 - Finite 100) / float64OfInt 3 * float64OfInt (int i + 1))
                      * (1 + Finite 0.1 * math_Sin (float64OfInt (int i) * math_Pi / Finite 6))
                      * (1 + (Finite (1 / 2) - Finite 0.5) * Finite 0.05 * Finite 2)
                    in if v < 0 then 0 else v)\<rparr>)
   \<and> length (filterToLast12Months sparseMonths) < 2
   \<and> generateSimpleForecast offlineEnv
        \<lparr>TimeSeriesData = sparseMonths, TimePeriod = ''month'', PeriodsToForecast = 6\<rparr>
      = Inr []"
proof -
  let ?r3 = "\<lparr>TimeSeriesData = threeMonths, TimePeriod = ''month'', PeriodsToForecast = 6\<rparr>"
  let ?r4 = "\<lparr>TimeSeriesData = fourMonths, TimePeriod = ''month'', PeriodsToForecast = 6\<rparr>"
  let ?r1 = "\<lparr>TimeSeriesData = sparseMonths, TimePeriod = ''month'', PeriodsToForecast = 6\<rparr>"
  have now: "timeNow offlineEnv = 20759"
    and rnd: "randFloat64 offlineEnv = (\<lambda>k. Finite (1 / 2))"
    by (simp_all add: offlineEnv_def)
  have three: "length threeMonths = 3" "last threeMonths = \<lparr>Period = ''2024-03'', Total = Finite 120\<rparr>"
    "hd (map Total threeMonths) = Finite 100"
    "foldl (+) 0 (map Total threeMonths) / float64OfInt 3 = Finite 110"
    by (simp_all add: threeMonths_def float64_eval)
  have four: "length fourMonths = 4" "last fourMonths = \<lparr>Period = ''2024-04'', Total = Finite 130\<rparr>"
    "foldl (+) 0 (drop (Suc 0) (map Total fourMonths)) / float64OfInt 3 = Finite 120"
    "foldl (+) 0 (take (Suc 0) (map Total fourMonths)) / float64OfInt 1 = Finite 100"
    by (simp_all add: fourMonths_def float64_eval)
  have a: "generateSimpleForecast offlineEnv ?r3
      = fillForecast 6
          (\<lambda>i. \<lparr>Period = generateNextPeriod 20759 ''2024-03'' ''month'' (int i + 1),
                 Total =
                   (let v = Finite 110
                      + (Finite 110 - Finite 100) / float64OfInt 2 * float64OfInt (int i + 1)
                    in if v < 0 then 0 else v)\<rparr>)"
    using C5_linear_branch_up_to_three_points[OF refl refl refl refl refl, of ?r3 offlineEnv]
    by (simp add: filter_threeMonths now three)
  have b: "generateSimpleForecast offlineEnv ?r4
      = fillForecast 6
          (\<lambda>i. \<lparr>Period = generateNextPeriod 20759 ''2024-04'' ''month'' (int i + 1),
                 Total =
                   (let v = (Finite 120
                        + (Finite 120 - Finite 100) / float64OfInt 3 * float64OfInt (int i + 1))
                      * (1 + Finite 0.1 * math_Sin (float64OfInt (int i) * math_Pi / Finite 6))
                      * (1 + (Finite (1 / 2) - Finite 0.5) * Finite 0.05 * Finite 2)
                    in if v < 0 then 0 else v)\<rparr>)"
    using C5_linear_branch_up_to_three_points[OF refl refl refl refl refl, of ?r4 offlineEnv]
    by (simp add: filter_fourMonths now rnd four)
  have c: "generateSimpleForecast offlineEnv ?r1 = Inr []"
    using C5_linear_branch_up_to_three_points[OF refl refl refl refl refl, of ?r1 offlineEnv]
    by (simp add: filter_sparseMonths)
  show ?thesis
    using a b c
    by (simp add: filter_threeMonths filter_fourMonths filter_sparseMonths three four)
qed

subsection \<open>C7: the payload between the brackets\<close>

text \<open>
  C7. When the text of the first choice has a \<^verbatim>\<open>[\<close> with a \<^verbatim>\<open>]\<close> somewhere after it, that
  is, when it reads \<open>pre [ mid ] post\<close> with no \<^verbatim>\<open>[\<close> in \<open>pre\<close> and no \<^verbatim>\<open>]\<close> in \<open>post\<close>,
  the candidate payload is \<open>[ mid ]\<close>, the substring from the first \<^verbatim>\<open>[\<close> to the last
  \<^verbatim>\<open>]\<close>, and the parser returns what \<^verbatim>\<open>json.Unmarshal\<close> makes of exactly this payload:
  its points together with the whole text, or a parse error. For the example reply the
  payload is the bracketed array, and the parser returns the single point
  \<^verbatim>\<open>("2024-02", 500.0)\<close> together with the whole reply.
\<close>

theorem C7_payload_between_brackets:
  "(CHR ''['' \<notin> set pre \<and> CHR '']'' \<notin> set post \<longrightarrow>
      jsonCandidate (pre @ CHR ''['' # mid @ CHR '']'' # post) = Some (CHR ''['' # mid @ [CHR '']''])
    \<and> parseSinglePeriodChatGPTResponse e
         \<lparr>Choices = \<lparr>Role = role, Content = pre @ CHR ''['' # mid @ CHR '']'' # post\<rparr> # others\<rparr>
       = (case jsonUnmarshal e (CHR ''['' # mid @ [CHR '']'']) of
            Inl err \<Rightarrow> Inl (Error (''failed to parse single-period JSON: '' @ err))
          | Inr forecast \<Rightarrow> Inr (forecast, pre @ CHR ''['' # mid @ CHR '']'' # post)))
   \<and> jsonCandidate exampleReply = Some examplePayload
   \<and> (jsonUnmarshal e examplePayload = Inr ps \<longrightarrow>
      parseSinglePeriodChatGPTResponse e \<lparr>Choices = [\<lparr>Role = role, Content = exampleReply\<rparr>]\<rparr>
        = Inr (ps, exampleReply))
   \<and> parseSinglePeriodChatGPTResponse (providerEnv exampleReply)
        \<lparr>Choices = [\<lparr>Role = ''assistant'', Content = exampleReply\<rparr>]\<rparr>
      = Inr ([\<lparr>Period = ''2024-02'', Total = Finite 500\<rparr>], exampleReply)"
proof (intro conjI impI)
  assume "CHR ''['' \<notin> set pre \<and> CHR '']'' \<notin> set post"
  then show "jsonCandidate (pre @ CHR ''['' # mid @ CHR '']'' # post)
      = Some (CHR ''['' # mid @ [CHR '']''])"
    by (simp add: jsonCandidate_brackets)
next
  assume "CHR ''['' \<notin> set pre \<and> CHR '']'' \<notin> set post"
  then have c: "jsonCandidate (pre @ CHR ''['' # mid @ CHR '']'' # post)
      = Some (CHR ''['' # mid @ [CHR '']''])"
    by (simp add: jsonCandidate_brackets)
  show "parseSinglePeriodChatGPTResponse e
         \<lparr>Choices = \<lparr>Role = role, Content = pre @ CHR ''['' # mid @ CHR '']'' # post\<rparr> # others\<rparr>
       = (case jsonUnmarshal e (CHR ''['' # mid @ [CHR '']'']) of
            Inl err \<Rightarrow> Inl (Error (''failed to parse single-period JSON: '' @ err))
          | Inr forecast \<Rightarrow> Inr (forecast, pre @ CHR ''['' # mid @ CHR '']'' # post))"
    unfolding parse_first_choice c by simp
next
  show "jsonCandidate exampleReply = Some examplePayload"
    by (rule jsonCandidate_exampleReply)
next
  assume "jsonUnmarshal e examplePayload = Inr ps"
  with jsonCandidate_exampleReply
  show "parseSinglePeriodChatGPTResponse e
      \<lparr>Choices = [\<lparr>Role = role, Content = exampleReply\<rparr>]\<rparr> = Inr (ps, exampleReply)"
    by (rule parse_with_candidate)
next
  have "jsonUnmarshal (providerEnv exampleReply) examplePayload
      = Inr [\<lparr>Period = ''2024-02'', Total = Finite 500\<rparr>]"
    by (simp add: providerEnv_fields decode_example)
  with jsonCandidate_exampleReply
  show "parseSinglePeriodChatGPTResponse (providerEnv exampleReply)
        \<lparr>Choices = [\<lparr>Role = ''assistant'', Content = exampleReply\<rparr>]\<rparr>
      = Inr ([\<lparr>Period = ''2024-02'', Total = Finite 500\<rparr>], exampleReply)"
    by (rule parse_with_candidate)
qed

theorem C7_payload_between_brackets_witness:
  "CHR ''['' \<notin> set ''Here you go: '' \<and> CHR '']'' \<notin> set '' thanks''
   \<and> jsonCandidate
        (''Here you go: '' @ CHR ''['' # butlast (tl examplePayload) @ CHR '']'' # '' thanks'')
       = Some (CHR ''['' # butlast (tl examplePayload) @ [CHR '']''])
   \<and> parseSinglePeriodChatGPTResponse (providerEnv exampleReply)
        \<lparr>Choices =
           \<lparr>Role = ''user'',
            Content = ''Here you go: '' @ CHR ''['' # butlast (tl examplePayload) @ CHR '']''
                        # '' thanks''\<rparr> # []\<rparr>
      = Inr ([\<lparr>Period = ''2024-02'', Total = Finite 500\<rparr>],
             ''Here you go: '' @ CHR ''['' # butlast (tl examplePayload) @ CHR '']'' # '' thanks'')
   \<and> jsonUnmarshal (providerEnv exampleReply) examplePayload
       = Inr [\<lparr>Period = ''2024-02'', Total = Finite 500\<rparr>]
   \<and> parseSinglePeriodChatGPTResponse (providerEnv exampleReply)
        \<lparr>Choices = [\<lparr>Role = ''user'', Content = exampleReply\<rparr>]\<rparr>
      = Inr ([\<lparr>Period = ''2024-02'', Total = Finite 500\<rparr>], exampleReply)"
proof -
  have a: "CHR ''['' \<notin> set ''Here you go: ''" "CHR '']'' \<notin> set '' thanks''"
    by simp_all
  have b: "jsonUnmarshal (providerEnv exampleReply) examplePayload
       = Inr [\<lparr>Period = ''2024-02'', Total = Finite 500\<rparr>]"
    by (simp add: providerEnv_fields decode_example)
  have b': "jsonUnmarshal (providerEnv exampleReply)
        (CHR ''['' # butlast (tl examplePayload) @ [CHR '']''])
       = Inr [\<lparr>Period = ''2024-02'', Total = Finite 500\<rparr>]"
    unfolding examplePayload_split by (rule b)
  from C7_payload_between_brackets[of "''Here you go: ''" "'' thanks''"
        "butlast (tl examplePayload)" "providerEnv exampleReply" "''user''" "[]"
        "[\<lparr>Period = ''2024-02'', Total = Finite 500\<rparr>]"] a b
  have 1: "jsonCandidate
        (''Here you go: '' @ CHR ''['' # butlast (tl examplePayload) @ CHR '']'' # '' thanks'')
       = Some (CHR ''['' # butlast (tl examplePayload) @ [CHR '']''])"
    and 2: "parseSinglePeriodChatGPTResponse (providerEnv exampleReply)
        \<lparr>Choices =
           \<lparr>Role = ''user'',
            Content = ''Here you go: '' @ CHR ''['' # butlast (tl examplePayload) @ CHR '']''
                        # '' thanks''\<rparr> # []\<rparr>
      = (case jsonUnmarshal (providerEnv exampleReply)
                (CHR ''['' # butlast (tl examplePayload) @ [CHR '']'']) of
            Inl err \<Rightarrow> Inl (Error (''failed to parse single-period JSON: '' @ err))
          | Inr forecast \<Rightarrow>
              Inr (forecast,
                ''Here you go: '' @ CHR ''['' # butlast (tl examplePayload) @ CHR '']''
                  # '' thanks''))"
    and 3: "parseSinglePeriodChatGPTResponse (providerEnv exampleReply)
        \<lparr>Choices = [\<lparr>Role = ''user'', Content = exampleReply\<rparr>]\<rparr>
      = Inr ([\<lparr>Period = ''2024-02'', Total = Finite 500\<rparr>], exampleReply)"
    by blast+
  from 2 have 2: "parseSinglePeriodChatGPTResponse (providerEnv exampleReply)
        \<lparr>Choices =
           \<lparr>Role = ''user'',
            Content = ''Here you go: '' @ CHR ''['' # butlast (tl examplePayload) @ CHR '']''
                        # '' thanks''\<rparr> # []\<rparr>
      = Inr ([\<lparr>Period = ''2024-02'', Total = Finite 500\<rparr>],
             ''Here you go: '' @ CHR ''['' # butlast (tl examplePayload) @ CHR '']'' # '' thanks'')"
    unfolding b' by simp
  from a 1 2 b 3 show ?thesis by (intro conjI)
qed

subsection \<open>C4: which forecast values are clamped\<close>

text \<open>
  C4 (as amended). No point that \<^verbatim>\<open>generateSimpleForecast\<close> returns has a total below
  zero, and each of its finite totals is at least zero. A forecast that the handler
  delivers with status 200 is either the forecast of \<^verbatim>\<open>generateSimpleForecast\<close> for the
  same series and granularity, and then every total is a finite number that is at least
  zero, or it is the list that \<^verbatim>\<open>json.Unmarshal\<close> decoded from the candidate payload of
  the provider's reply to the prompt of this request, passed on as decoded.
\<close>

theorem C4_fallback_values_nonnegative:
  assumes "tp = (if TimePeriod request = '''' then ''month'' else TimePeriod request)"
  shows "(generateSimpleForecast e request = Inr forecast \<longrightarrow>
           (\<forall>p \<in> set forecast. \<not> Total p < 0 \<and> (\<forall>x. Total p = Finite x \<longrightarrow> 0 \<le> x)))
       \<and> (GenerateSalesForecast e (Some request) = JSON 200 (ForecastBody response) \<longrightarrow>
           (generateSimpleForecast e (createRequestForPeriod request tp) = Inr (Forecast response)
            \<and> (\<forall>p \<in> set (Forecast response). \<exists>x. Total p = Finite x \<and> 0 \<le> x))
           \<or> (\<exists>reply payload.
                 sendChatGPTRequest e (apiKeyEnv e)
                   (chatGPTRequestFor (buildForecastPromptForPeriod e request tp)) = Inr reply
               \<and> Choices reply \<noteq> []
               \<and> RawResponse response = Content (Choices reply ! 0)
               \<and> jsonCandidate (Content (Choices reply ! 0)) = Some payload
               \<and> jsonUnmarshal e payload = Inr (Forecast response)))"
proof (intro conjI impI)
  assume "generateSimpleForecast e request = Inr forecast"
  then show "\<forall>p \<in> set forecast. \<not> Total p < 0 \<and> (\<forall>x. Total p = Finite x \<longrightarrow> 0 \<le> x)"
    by (rule generateSimpleForecast_sign)
next
  assume ok: "GenerateSalesForecast e (Some request) = JSON 200 (ForecastBody response)"
  have ne: "TimeSeriesData request \<noteq> []"
  proof
    assume "TimeSeriesData request = []"
    then have "GenerateSalesForecast e (Some request)
        = JSON 400 (ErrorBody ''No time series data provided'')"
      by (rule GenerateSalesForecast_empty)
    with ok show False by simp
  qed
  from generateForecastForPeriod_total[of e request tp]
  obtain forecast raw where
    t: "generateForecastForPeriod e request tp = Inr (forecast, raw)"
    and o: "generateSimpleForecast e (createRequestForPeriod request tp) = Inr forecast
        \<or> (\<exists>reply.
              sendChatGPTRequest e (apiKeyEnv e)
                (chatGPTRequestFor (buildForecastPromptForPeriod e request tp)) = Inr reply
            \<and> parseSinglePeriodChatGPTResponse e reply = Inr (forecast, raw))"
    by blast
  let ?response = "\<lparr>Forecast = forecast, ResponseTimePeriod = tp,
      StatusMessage = ''Forecast generated successfully'', RawResponse = raw\<rparr>"
  have "GenerateSalesForecast e (Some request) = c_JSON 200 ?response"
    using ne assms t by (rule GenerateSalesForecast_answer)
  with ok have "c_JSON 200 ?response = JSON 200 (ForecastBody response)" by simp
  from c_JSON_answered[OF this]
  have r: "response = ?response" and fin: "list_all (\<lambda>p. isFinite (Total p)) forecast"
    by simp_all
  from o show "(generateSimpleForecast e (createRequestForPeriod request tp)
          = Inr (Forecast response)
        \<and> (\<forall>p \<in> set (Forecast response). \<exists>x. Total p = Finite x \<and> 0 \<le> x))
      \<or> (\<exists>reply payload.
            sendChatGPTRequest e (apiKeyEnv e)
              (chatGPTRequestFor (buildForecastPromptForPeriod e request tp)) = Inr reply
          \<and> Choices reply \<noteq> []
          \<and> RawResponse response = Content (Choices reply ! 0)
          \<and> jsonCandidate (Content (Choices reply ! 0)) = Some payload
          \<and> jsonUnmarshal e payload = Inr (Forecast response))"
  proof
    assume s: "generateSimpleForecast e (createRequestForPeriod request tp) = Inr forecast"
    have "\<forall>p \<in> set forecast. \<exists>x. Total p = Finite x \<and> 0 \<le> x"
    proof
      fix p assume p: "p \<in> set forecast"
      with generateSimpleForecast_sign[OF s] have "\<not> Total p < 0" by blast
      moreover from fin p have "isFinite (Total p)" by (simp add: list_all_iff)
      ultimately show "\<exists>x. Total p = Finite x \<and> 0 \<le> x" by (rule finite_nonneg_total)
    qed
    with s show ?thesis unfolding r by simp
  next
    assume "\<exists>reply.
        sendChatGPTRequest e (apiKeyEnv e)
          (chatGPTRequestFor (buildForecastPromptForPeriod e request tp)) = Inr reply
      \<and> parseSinglePeriodChatGPTResponse e reply = Inr (forecast, raw)"
    then obtain reply where
      s: "sendChatGPTRequest e (apiKeyEnv e)
          (chatGPTRequestFor (buildForecastPromptForPeriod e request tp)) = Inr reply"
      and p: "parseSinglePeriodChatGPTResponse e reply = Inr (forecast, raw)"
      by blast
    from parse_success[OF p] obtain payload where
      "Choices reply \<noteq> []" "raw = Content (Choices reply ! 0)"
      "jsonCandidate (Content (Choices reply ! 0)) = Some payload"
      "jsonUnmarshal e payload = Inr forecast"
      by blast
    with s show ?thesis unfolding r by auto
  qed
qed

text \<open>
  When the provider's reply holds a negative total, the handler delivers the point with
  that negative total.
\<close>

lemma jsonCandidate_negativeReply: "jsonCandidate negativeReply = Some negativeReply"
proof -
  have s: "negativeReply = [] @ CHR ''['' # butlast (tl negativeReply) @ CHR '']'' # []"
    by (simp add: negativeReply_def)
  have "jsonCandidate ([] @ CHR ''['' # butlast (tl negativeReply) @ CHR '']'' # [])
      = Some (CHR ''['' # butlast (tl negativeReply) @ [CHR '']''])"
    by (rule jsonCandidate_brackets) simp_all
  then show ?thesis
    using s by simp
qed

lemma providerEnv_key_valid:
  "apiKeyEnv (providerEnv reply) \<noteq> []"
  "\<not> length (apiKeyEnv (providerEnv reply)) < 10"
  "\<not> length (apiKeyEnv (providerEnv reply)) < 3"
  "take 3 (apiKeyEnv (providerEnv reply)) = ''sk-''"
  by (simp_all add: providerEnv_fields)

lemma generateForecastForPeriod_provider:
  assumes "parseSinglePeriodChatGPTResponse (providerEnv reply)
      \<lparr>Choices = [\<lparr>Role = ''assistant'', Content = reply\<rparr>]\<rparr> = Inr (forecast, raw)"
  shows "generateForecastForPeriod (providerEnv reply) request tp = Inr (forecast, raw)"
  unfolding generateForecastForPeriod_def Let_def
  by (simp add: providerEnv_key_valid providerEnv_fields(2,3) assms)

theorem C4_provider_negative_counterexample:
  "GenerateSalesForecast (providerEnv negativeReply)
     (Some \<lparr>TimeSeriesData = twoMonths, TimePeriod = ''month'', PeriodsToForecast = 0\<rparr>)
   = JSON 200 (ForecastBody
       \<lparr>Forecast = [\<lparr>Period = ''2024-03'', Total = Finite (- 5)\<rparr>],
        ResponseTimePeriod = ''month'',
        StatusMessage = ''Forecast generated successfully'', RawResponse = negativeReply\<rparr>)
   \<and> Total \<lparr>Period = ''2024-03'', Total = Finite (- 5)\<rparr> < 0"
proof -
  have u: "jsonUnmarshal (providerEnv negativeReply) negativeReply
      = Inr [\<lparr>Period = ''2024-03'', Total = Finite (- 5)\<rparr>]"
    by (simp add: providerEnv_fields decode_negative)
  have p: "parseSinglePeriodChatGPTResponse (providerEnv negativeReply)
      \<lparr>Choices = [\<lparr>Role = ''assistant'', Content = negativeReply\<rparr>]\<rparr>
      = Inr ([\<lparr>Period = ''2024-03'', Total = Finite (- 5)\<rparr>], negativeReply)"
    using jsonCandidate_negativeReply u by (rule parse_with_candidate)
  have ne: "twoMonths \<noteq> []" by (simp add: twoMonths_def)
  show ?thesis
    by (simp add: GenerateSalesForecast_def generateForecastForPeriod_provider[OF p] ne
        c_JSON_def float64_ops)
qed

theorem C4_fallback_values_nonnegative_witness:
  "generateSimpleForecast offlineEnv
     (createRequestForPeriod
        \<lparr>TimeSeriesData = twoMonths, TimePeriod = ''month'', PeriodsToForecast = 0\<rparr> ''month'')
   = Inr [\<lparr>Period = ''2024-03'', Total = Finite 10\<rparr>, \<lparr>Period = ''2024-04'', Total = Finite 0\<rparr>,
          \<lparr>Period = ''2024-05'', Total = Finite 0\<rparr>, \<lparr>Period = ''2024-06'', Total = Finite 0\<rparr>,
          \<lparr>Period = ''2024-07'', Total = Finite 0\<rparr>, \<lparr>Period = ''2024-08'', Total = Finite 0\<rparr>]
   \<and> list_all (\<lambda>p. \<not> Total p < 0)
        [\<lparr>Period = ''2024-03'', Total = Finite 10\<rparr>, \<lparr>Period = ''2024-04'', Total = Finite 0\<rparr>,
         \<lparr>Period = ''2024-05'', Total = Finite 0\<rparr>, \<lparr>Period = ''2024-06'', Total = Finite 0\<rparr>,
         \<lparr>Period = ''2024-07'', Total = Finite 0\<rparr>, \<lparr>Period = ''2024-08'', Total = Finite 0\<rparr>]
   \<and> GenerateSalesForecast (providerEnv negativeReply)
        (Some \<lparr>TimeSeriesData = twoMonths, TimePeriod = ''month'', PeriodsToForecast = 0\<rparr>)
      = JSON 200 (ForecastBody
          \<lparr>Forecast = [\<lparr>Period = ''2024-03'', Total = Finite (- 5)\<rparr>],
           ResponseTimePeriod = ''month'',
           StatusMessage = ''Forecast generated successfully'', RawResponse = negativeReply\<rparr>)
   \<and> (\<exists>reply payload.
         sendChatGPTRequest (providerEnv negativeReply) (apiKeyEnv (providerEnv negativeReply))
           (chatGPTRequestFor
              (buildForecastPromptForPeriod (providerEnv negativeReply)
                 \<lparr>TimeSeriesData = twoMonths, TimePeriod = ''month'', PeriodsToForecast = 0\<rparr>
                 ''month'')) = Inr reply
       \<and> Choices reply \<noteq> []
       \<and> negativeReply = Content (Choices reply ! 0)
       \<and> jsonCandidate (Content (Choices reply ! 0)) = Some payload
       \<and> jsonUnmarshal (providerEnv negativeReply) payload
           = Inr [\<lparr>Period = ''2024-03'', Total = Finite (- 5)\<rparr>])"
proof -
  let ?r = "\<lparr>TimeSeriesData = twoMonths, TimePeriod = ''month'', PeriodsToForecast = 0\<rparr>"
  let ?F = "[\<lparr>Period = ''2024-03'', Total = Finite 10\<rparr>, \<lparr>Period = ''2024-04'', Total = Finite 0\<rparr>,
             \<lparr>Period = ''2024-05'', Total = Finite 0\<rparr>, \<lparr>Period = ''2024-06'', Total = Finite 0\<rparr>,
             \<lparr>Period = ''2024-07'', Total = Finite 0\<rparr>, \<lparr>Period = ''2024-08'', Total = Finite 0\<rparr>]"
  let ?N = "[\<lparr>Period = ''2024-03'', Total = Finite (- 5)\<rparr>]"
  let ?R = "\<lparr>Forecast = ?N, ResponseTimePeriod = ''month'',
           StatusMessage = ''Forecast generated successfully'', RawResponse = negativeReply\<rparr>"
  note a = generateSimpleForecast_twoMonths
  have m: "''month'' = (if TimePeriod ?r = '''' then ''month'' else TimePeriod ?r)" by simp
  have m': "''month'' = (if TimePeriod (createRequestForPeriod ?r ''month'') = '''' then ''month''
      else TimePeriod (createRequestForPeriod ?r ''month''))"
    by (simp add: createRequestForPeriod_fields)
  have u: "jsonUnmarshal (providerEnv negativeReply) negativeReply = Inr ?N"
    by (simp add: providerEnv_fields decode_negative)
  have p: "parseSinglePeriodChatGPTResponse (providerEnv negativeReply)
      \<lparr>Choices = [\<lparr>Role = ''assistant'', Content = negativeReply\<rparr>]\<rparr>
      = Inr (?N, negativeReply)"
    using jsonCandidate_negativeReply u by (rule parse_with_candidate)
  have ne: "twoMonths \<noteq> []" by (simp add: twoMonths_def)
  have b: "GenerateSalesForecast (providerEnv negativeReply) (Some ?r)
      = JSON 200 (ForecastBody ?R)"
    by (simp add: GenerateSalesForecast_def generateForecastForPeriod_provider[OF p] ne
        c_JSON_def)
  from C4_fallback_values_nonnegative[OF m', of offlineEnv ?F] a
  have "\<forall>p \<in> set ?F. \<not> Total p < 0 \<and> (\<forall>x. Total p = Finite x \<longrightarrow> 0 \<le> x)"
    by blast
  then have c: "list_all (\<lambda>p. \<not> Total p < 0) ?F"
    unfolding list_all_iff by blast
  from C4_fallback_values_nonnegative[OF m, of "providerEnv negativeReply" _ ?R] b
  have "(generateSimpleForecast (providerEnv negativeReply) (createRequestForPeriod ?r ''month'')
          = Inr (Forecast ?R)
        \<and> (\<forall>p \<in> set (Forecast ?R). \<exists>x. Total p = Finite x \<and> 0 \<le> x))
      \<or> (\<exists>reply payload.
            sendChatGPTRequest (providerEnv negativeReply) (apiKeyEnv (providerEnv negativeReply))
              (chatGPTRequestFor
                 (buildForecastPromptForPeriod (providerEnv negativeReply) ?r ''month''))
            = Inr reply
          \<and> Choices reply \<noteq> []
          \<and> RawResponse ?R = Content (Choices reply ! 0)
          \<and> jsonCandidate (Content (Choices reply ! 0)) = Some payload
          \<and> jsonUnmarshal (providerEnv negativeReply) payload = Inr (Forecast ?R))"
    by blast
  then have d: "\<exists>reply payload.
            sendChatGPTRequest (providerEnv negativeReply) (apiKeyEnv (providerEnv negativeReply))
              (chatGPTRequestFor
                 (buildForecastPromptForPeriod (providerEnv negativeReply) ?r ''month''))
            = Inr reply
          \<and> Choices reply \<noteq> []
          \<and> negativeReply = Content (Choices reply ! 0)
          \<and> jsonCandidate (Content (Choices reply ! 0)) = Some payload
          \<and> jsonUnmarshal (providerEnv negativeReply) payload = Inr ?N"
    by auto
  from a c b d show ?thesis by (intro conjI)
qed

subsection \<open>Totals beyond the range of \<^verbatim>\<open>float64\<close>\<close>

text \<open>
  Two totals of \<^verbatim>\<open>1e308\<close>: their sum overflows, every forecast total is the positive
  infinity, \<^verbatim>\<open>c.JSON\<close> refuses it and the handler returns that error. Five such totals
  give the trend NaN, which the comparison with 0 leaves in place.
\<close>

lemma hugeValue_sum: "fromReal (2 * hugeValue) = PosInf"
  by (simp add: fromReal_def maxFloat64_def hugeValue_def)

lemma hugeValue_fits: "fromReal hugeValue = Finite hugeValue"
  by (simp add: fromReal_def maxFloat64_def hugeValue_def)

lemma filter_hugeMonths: "filterToLast12Months hugeMonths = hugeMonths"
  unfolding filterToLast12Months_def hugeMonths_def
  by (simp add: label_eval)

lemma filter_fiveHugeMonths: "filterToLast12Months fiveHugeMonths = fiveHugeMonths"
  unfolding filterToLast12Months_def fiveHugeMonths_def
  by (simp add: label_eval)

lemma months_after_2024_05:
  "generateNextPeriod now ''2024-05'' ''month'' 1 = ''2024-06''"
  "generateNextPeriod now ''2024-05'' ''month'' 2 = ''2024-07''"
  "generateNextPeriod now ''2024-05'' ''month'' 3 = ''2024-08''"
  "generateNextPeriod now ''2024-05'' ''month'' 4 = ''2024-09''"
  "generateNextPeriod now ''2024-05'' ''month'' 5 = ''2024-10''"
  "generateNextPeriod now ''2024-05'' ''month'' 6 = ''2024-11''"
  unfolding generateNextPeriod_def Let_def by (simp_all add: label_eval)

lemma linearPoint_PosInf:
  "linearPoint e lp tp PosInf PosInf i
   = \<lparr>Period = generateNextPeriod (timeNow e) lp tp (int i + 1), Total = PosInf\<rparr>"
proof -
  have "fromReal (real_of_int (int i + 1)) = PosInf
      \<or> (\<exists>k. 0 < k \<and> fromReal (real_of_int (int i + 1)) = Finite k)"
    by (simp add: fromReal_def)
  then show ?thesis
    by (auto simp: linearPoint_def Let_def float64_ops float64OfInt_def signedInf_def)
qed

lemma seasonalPoint_NaN:
  "seasonalPoint e lp tp a NaN i
   = \<lparr>Period = generateNextPeriod (timeNow e) lp tp (int i + 1), Total = NaN\<rparr>"
  by (cases a) (simp_all add: seasonalPoint_def Let_def float64_ops)

lemma generateSimpleForecast_hugeMonths:
  "generateSimpleForecast offlineEnv
     (createRequestForPeriod
        \<lparr>TimeSeriesData = hugeMonths, TimePeriod = ''month'', PeriodsToForecast = 0\<rparr> ''month'')
   = Inr [\<lparr>Period = ''2024-03'', Total = PosInf\<rparr>, \<lparr>Period = ''2024-04'', Total = PosInf\<rparr>,
          \<lparr>Period = ''2024-05'', Total = PosInf\<rparr>, \<lparr>Period = ''2024-06'', Total = PosInf\<rparr>,
          \<lparr>Period = ''2024-07'', Total = PosInf\<rparr>, \<lparr>Period = ''2024-08'', Total = PosInf\<rparr>]"
proof -
  let ?r = "createRequestForPeriod
        \<lparr>TimeSeriesData = hugeMonths, TimePeriod = ''month'', PeriodsToForecast = 0\<rparr> ''month''"
  have r: "?r = \<lparr>TimeSeriesData = hugeMonths, TimePeriod = ''month'', PeriodsToForecast = 6\<rparr>"
    by (simp add: createRequestForPeriod_def getForecastPeriods_def)
  have fd: "hugeMonths = filterToLast12Months (TimeSeriesData ?r)"
    by (simp add: r filter_hugeMonths)
  have n: "length hugeMonths = 2 \<or> length hugeMonths = 3"
    by (simp add: hugeMonths_def)
  have avg: "sumValues (map Total hugeMonths) / float64OfInt (int (length hugeMonths)) = PosInf"
    by (simp add: sumValues_def hugeMonths_def float64_eval hugeValue_sum hugeValue_fits
        signedInf_def)
  have trend: "(PosInf - map Total hugeMonths ! 0) / float64OfInt (int (length (map Total hugeMonths)) - 1)
      = PosInf"
    by (simp add: hugeMonths_def float64_eval signedInf_def)
  have "generateSimpleForecast offlineEnv ?r
      = linearForecast offlineEnv ?r hugeMonths PosInf (map Total hugeMonths)"
    using generateSimpleForecast_few[OF fd n, of offlineEnv] unfolding avg .
  also have "\<dots> = fillForecast 6 (linearPoint offlineEnv ''2024-02'' ''month'' PosInf PosInf)"
    unfolding linearForecast_def Let_def trend r
    by (simp add: hugeMonths_def)
  also have "\<dots> = Inr [\<lparr>Period = ''2024-03'', Total = PosInf\<rparr>,
          \<lparr>Period = ''2024-04'', Total = PosInf\<rparr>,
          \<lparr>Period = ''2024-05'', Total = PosInf\<rparr>, \<lparr>Period = ''2024-06'', Total = PosInf\<rparr>,
          \<lparr>Period = ''2024-07'', Total = PosInf\<rparr>, \<lparr>Period = ''2024-08'', Total = PosInf\<rparr>]"
    by (simp add: fillForecast_6 linearPoint_PosInf months_after_2024_02)
  finally show ?thesis .
qed

lemma GenerateSalesForecast_hugeMonths:
  "GenerateSalesForecast offlineEnv
     (Some \<lparr>TimeSeriesData = hugeMonths, TimePeriod = ''month'', PeriodsToForecast = 0\<rparr>)
   = Failed ''json: unsupported value: +Inf''"
proof -
  have ne: "hugeMonths \<noteq> []" by (simp add: hugeMonths_def)
  show ?thesis
    by (simp add: GenerateSalesForecast_def generateForecastForPeriod_def
        returnSimpleForecast_def generateSimpleForecast_hugeMonths offlineEnv_key ne c_JSON_def)
qed

lemma generateSimpleForecast_fiveHugeMonths:
  "generateSimpleForecast offlineEnv
     (createRequestForPeriod
        \<lparr>TimeSeriesData = fiveHugeMonths, TimePeriod = ''month'', PeriodsToForecast = 0\<rparr>
        ''month'')
   = Inr [\<lparr>Period = ''2024-06'', Total = NaN\<rparr>, \<lparr>Period = ''2024-07'', Total = NaN\<rparr>,
          \<lparr>Period = ''2024-08'', Total = NaN\<rparr>, \<lparr>Period = ''2024-09'', Total = NaN\<rparr>,
          \<lparr>Period = ''2024-10'', Total = NaN\<rparr>, \<lparr>Period = ''2024-11'', Total = NaN\<rparr>]"
proof -
  let ?r = "createRequestForPeriod
        \<lparr>TimeSeriesData = fiveHugeMonths, TimePeriod = ''month'', PeriodsToForecast = 0\<rparr>
        ''month''"
  have r: "?r = \<lparr>TimeSeriesData = fiveHugeMonths, TimePeriod = ''month'', PeriodsToForecast = 6\<rparr>"
    by (simp add: createRequestForPeriod_def getForecastPeriods_def)
  have fd: "fiveHugeMonths = filterToLast12Months (TimeSeriesData ?r)"
    by (simp add: r filter_fiveHugeMonths)
  have n: "4 \<le> length fiveHugeMonths"
    by (simp add: fiveHugeMonths_def)
  have avgRecent: "sumValues (drop (length fiveHugeMonths - 3) (map Total fiveHugeMonths))
      / float64OfInt 3 = PosInf"
    by (simp add: sumValues_def fiveHugeMonths_def float64_eval hugeValue_sum hugeValue_fits
        signedInf_def)
  have trend: "(PosInf - sumValues (take (length fiveHugeMonths - 3) (map Total fiveHugeMonths))
        / float64OfInt (int (length (take (length fiveHugeMonths - 3)
            (map Total fiveHugeMonths))))) / float64OfInt (int 3) = NaN"
    by (simp add: sumValues_def fiveHugeMonths_def float64_eval hugeValue_sum hugeValue_fits
        signedInf_def)
  have "generateSimpleForecast offlineEnv ?r
      = trendSeasonalForecast offlineEnv ?r fiveHugeMonths PosInf
          (take (length fiveHugeMonths - 3) (map Total fiveHugeMonths)) 3"
    using generateSimpleForecast_many[OF fd n, of offlineEnv] unfolding avgRecent .
  also have "\<dots> = fillForecast 6 (seasonalPoint offlineEnv ''2024-05'' ''month'' PosInf NaN)"
    unfolding trendSeasonalForecast_def Let_def trend r
    by (simp add: fiveHugeMonths_def)
  also have "\<dots> = Inr [\<lparr>Period = ''2024-06'', Total = NaN\<rparr>, \<lparr>Period = ''2024-07'', Total = NaN\<rparr>,
          \<lparr>Period = ''2024-08'', Total = NaN\<rparr>, \<lparr>Period = ''2024-09'', Total = NaN\<rparr>,
          \<lparr>Period = ''2024-10'', Total = NaN\<rparr>, \<lparr>Period = ''2024-11'', Total = NaN\<rparr>]"
    by (simp add: fillForecast_6 seasonalPoint_NaN months_after_2024_05)
  finally show ?thesis .
qed

lemma GenerateSalesForecast_fiveHugeMonths:
  "GenerateSalesForecast offlineEnv
     (Some \<lparr>TimeSeriesData = fiveHugeMonths, TimePeriod = ''month'', PeriodsToForecast = 0\<rparr>)
   = Failed ''json: unsupported value: NaN''"
proof -
  have ne: "fiveHugeMonths \<noteq> []" by (simp add: fiveHugeMonths_def)
  show ?thesis
    by (simp add: GenerateSalesForecast_def generateForecastForPeriod_def
        returnSimpleForecast_def generateSimpleForecast_fiveHugeMonths offlineEnv_key ne
        c_JSON_def)
qed

subsection \<open>Facts about the period bucketer\<close>

















subsection \<open>C6: what the period bucketer returns\<close>


subsection \<open>C6: the bucketer on example observations\<close>

lemma utcLib_fields:
  "newDate utcLib = Parse_2006_01_02"
  "toISOString utcLib d = map_option (\<lambda>t. Format_2006_01_02 t @ ''T00:00:00.000Z'') d"
  "getDate utcLib d = map_option (\<lambda>t. snd (snd (civil t))) d"
  "getDay utcLib d = map_option (\<lambda>t. (t + 4) mod 7) d"
  "getFullYear utcLib d = map_option (\<lambda>t. fst (civil t)) d"
  "getMonth utcLib d = map_option (\<lambda>t. fst (snd (civil t)) - 1) d"
  "setDate utcLib = utcSetDate"
  "getTime utcLib d = map_option (\<lambda>t. t * 86400000) d"
  "localeCompare utcLib a b = compareBytes (map of_char a) (map of_char b)"
  by (simp_all add: utcLib_def)

lemma week_keys:
  "periodKeyOf utcLib Week ''2024-01-01'' = Some ''2023-12-31''"
  "periodKeyOf utcLib Week ''2024-01-02'' = Some ''2023-12-31''"
  "periodKeyOf utcLib Week ''2024-01-08'' = Some ''2024-01-07''"
  unfolding periodKeyOf_def Let_def utcLib_fields
  by (simp_all add: parse_eval date_eval)
    (simp_all add: utcSetDate_def jsMinus_def civil_eval date_eval,
     simp_all add: beforeT_def civil_eval format_eval)
















lemma weekScenario_sums:
  "foldl (+) 0 (map (\<lambda>entry. periodTotalOf (snd entry))
     (filter (\<lambda>entry. the (periodKeyOf utcLib Week (fst entry)) = ''2023-12-31'') weekScenario))
   = Finite 250"
  "foldl (+) 0 (map (\<lambda>entry. periodTotalOf (snd entry))
     (filter (\<lambda>entry. the (periodKeyOf utcLib Week (fst entry)) = ''2024-01-07'') weekScenario))
   = Finite 200"
  by (simp_all add: weekScenario_def week_keys periodTotalOf_def float64_eval)



end
